theory Spec2Isabelle
  imports Main "HOL-Library.AList"
begin

section \<open>The tabular source\<close>

text \<open>
  A pandas column label is a string or an integer; \<^verbatim>\<open>str(x)\<close> renders it. The
  database's column names are always strings (comment at line 315 of main.py).
\<close>

datatype label = StrLabel string | IntLabel int

fun str_nat :: "nat \<Rightarrow> string" where
  "str_nat n =
     (if n < 10 then [''0123456789'' ! n]
      else str_nat (n div 10) @ [''0123456789'' ! (n mod 10)])"

declare str_nat.simps [simp del]

definition str_int :: "int \<Rightarrow> string" where
  "str_int i = (if i < 0 then CHR ''-'' # str_nat (nat (- i)) else str_nat (nat i))"

fun str :: "label \<Rightarrow> string" where
  "str (StrLabel s) = s"
| "str (IntLabel i) = str_int i"

text \<open>
  The dtype of a column, from which its semantic type (section 3 of the specification)
  follows: \<^verbatim>\<open>bool\<close> (no null can be stored), \<^verbatim>\<open>int64\<close>, \<^verbatim>\<open>float64\<close>,
  \<^verbatim>\<open>datetime64\<close>, \<^verbatim>\<open>object\<close> (any Python values: texts, decimals, booleans beside
  nulls) and the nullable extension dtype \<^verbatim>\<open>boolean\<close>.
\<close>

datatype pandas_dtype =
  BoolDtype | Int64Dtype | Float64Dtype | Datetime64Dtype | ObjectDtype | BooleanDtype

text \<open>
  A cell is null, a boolean, an integer, a float (carried as its \<^verbatim>\<open>repr\<close>, the text
  pandas writes for it) or a text; a value of another type (datetime, decimal) is carried
  as the text pandas writes for it.
\<close>

datatype cell =
  NullCell | BoolCell bool | IntCell int | FloatCell string | TextCell string | OtherCell string

record column =
  name :: label
  dtype :: pandas_dtype
  cells :: "cell list"

text \<open>A DataFrame with a single-level row index: its columns in order, and the index.\<close>

record frame =
  columns :: "column list"
  index_name :: "label option"
  index_dtype :: pandas_dtype
  index_cells :: "cell list"

text \<open>\<^verbatim>\<open>df.shape\<close>: the number of rows is the length of the index.\<close>

definition shape :: "frame \<Rightarrow> nat \<times> nat" where
  "shape f = (length (index_cells f), length (columns f))"

text \<open>\<^verbatim>\<open>df.columns.has_duplicates\<close> and \<^verbatim>\<open>df.columns[df.columns.duplicated(keep=False)]\<close>.\<close>

definition has_duplicates :: "frame \<Rightarrow> bool" where
  "has_duplicates f = (\<not> distinct (map name (columns f)))"

definition duplicated :: "frame \<Rightarrow> label list" where
  "duplicated f =
     (let ls = map name (columns f) in filter (\<lambda>l. 1 < count_list ls l) ls)"

section \<open>Errors\<close>

text \<open>
  The messages of \<^verbatim>\<open>BCPandasValueError\<close>, with the values the source interpolates:
  \<^item> \<open>DuplicateNames\<close>: "Columns with duplicate names detected, ... Duplicates: ..." (line 254);
  \<^item> \<open>BatchSizeZero\<close>: "Param batch_size can't be 0" (line 268);
  \<^item> \<open>BatchSizeTooLarge\<close>: "Param batch_size can't be larger than the number of rows in
    the DataFrame" (line 270);
  \<^item> \<open>ExtraColumns\<close>: "Column(s) detected in the dataframe that are not in the database,
    ... the extra column(s): ..." (line 318);
  \<^item> \<open>AlreadyExists\<close>: "The (sql_type) called (schema).(table_name) already exists,
    `if_exists` param was set to `fail`." (line 332).
\<close>

datatype message =
    DuplicateNames "label list"
  | BatchSizeZero
  | BatchSizeTooLarge
  | ExtraColumns "string list"
  | AlreadyExists string string string

datatype path = TempFile nat

datatype error =
    BCPandasValueError message
  | AssertionError string
  | ValueError string
  | KeyError string
  | TypeError string
  | OSError path
  | FileNotFoundError path
  | DatabaseError
  | BcpError

section \<open>The environment of one invocation\<close>

text \<open>One record of the format file (section 3, FormatFileModel).\<close>

record field_descriptor =
  file_ordinal :: nat
  destination_ordinal :: int
  terminator_bytes :: string
  type_tag :: string
  source_column_name :: string

text \<open>
  A scratch file holds the flat file (its records as lists of fields, the separator and
  the line terminator), the format file, or what a failed write left.
\<close>

datatype file_content =
    Csv "string list list" char string
  | Fmt "field_descriptor list"
  | Partial

text \<open>The keyword arguments of the call of \<^verbatim>\<open>bcp\<close> at lines 354 to 365 (creds apart).\<close>

record bcp_call =
  bcp_sql_item :: string
  bcp_direction :: string
  bcp_flat_file :: path
  bcp_format_file_path :: path
  bcp_sql_type :: string
  bcp_schema :: string
  bcp_batch_size :: "int option"
  bcp_bcp_path :: "string option"
  bcp_error_file_path :: string

text \<open>What an invocation does to the world outside, in order.\<close>

datatype event =
    FileWritten path file_content
  | FileRemoved path
  | ExistsQueried string string string
  | ColumnsQueried string string
  | TableDropped string string
  | TableCreated string string "string list"
  | BcpInvoked bcp_call

text \<open>
  The world: the DataFrame objects (a reference is a position in \<open>frames\<close>; pandas
  allocates a new object for every copy), the scratch directory, the counter of
  temporary names, the catalog (schema and table name to the rows of
  \<^verbatim>\<open>INFORMATION_SCHEMA.COLUMNS\<close>: column name and ordinal position), and the trace.
\<close>

record world =
  frames :: "frame list"
  files :: "(path \<times> file_content) list"
  next_temp :: nat
  db :: "((string \<times> string) \<times> (string \<times> int) list) list"
  trace :: "event list"

datatype io_outcome = IoOk | OpenFails | WriteFails

text \<open>
  The parts of the package that main.py imports from constants.py and utils.py: the
  constants \<^verbatim>\<open>TABLE\<close>, \<^verbatim>\<open>IF_EXISTS_OPTIONS\<close>, \<^verbatim>\<open>IN\<close>, \<^verbatim>\<open>NEWLINE\<close>, the selectors
  \<^verbatim>\<open>get_delimiter\<close> and \<^verbatim>\<open>get_quotechar\<close> (a scan of the frame that returns a
  character or raises) and the table of host types are parameters; so is \<open>repr_float\<close>,
  the \<^verbatim>\<open>repr\<close> of the float of an integer of sixteen digits or more. The other fields
  say which of the external steps fail in this invocation.
\<close>

record env =
  TABLE :: string
  IF_EXISTS_OPTIONS :: "string list"
  IN :: string
  NEWLINE :: string
  get_delimiter :: "frame \<Rightarrow> error + char"
  get_quotechar :: "frame \<Rightarrow> error + char"
  host_type :: "pandas_dtype \<Rightarrow> string"
  repr_float :: "int \<Rightarrow> string"
  to_csv_io :: io_outcome
  exists_query_fails :: bool
  columns_query_fails :: bool
  format_file_io :: io_outcome
  create_fails :: bool
  bcp_fails :: bool

text \<open>The parameters of \<^verbatim>\<open>to_sql\<close> (lines 190 to 204); \<open>df\<close> is a reference.\<close>

record args =
  df :: nat
  table_name :: string
  sql_type :: string
  schema :: string
  index :: bool
  if_exists :: string
  batch_size :: "int option"
  debug :: bool
  bcp_path :: "string option"
  dtypes :: "(string \<times> string) list option"
  keys :: "string list option"
  error_path :: "string option"

section \<open>Sequencing\<close>

type_synonym 'a outcome = "(error + 'a) \<times> world"

definition bind :: "(world \<Rightarrow> 'a outcome) \<Rightarrow> ('a \<Rightarrow> world \<Rightarrow> 'b outcome) \<Rightarrow> world \<Rightarrow> 'b outcome" where
  "bind m k w = (case m w of (Inl e, w') \<Rightarrow> (Inl e, w') | (Inr x, w') \<Rightarrow> k x w')"

definition lift :: "error + 'a \<Rightarrow> world \<Rightarrow> 'a outcome" where
  "lift r w = (r, w)"

definition log :: "event \<Rightarrow> world \<Rightarrow> world" where
  "log ev w = w\<lparr>trace := trace w @ [ev]\<rparr>"

section \<open>pandas\<close>

text \<open>
  The store of DataFrame objects. A reference that a caller holds is below
  \<open>length (frames w)\<close>; nothing is ever written at an existing position.
\<close>

definition deref :: "world \<Rightarrow> nat \<Rightarrow> frame" where
  "deref w r = frames w ! r"

definition alloc :: "frame \<Rightarrow> world \<Rightarrow> nat outcome" where
  "alloc f w = (Inr (length (frames w)), w\<lparr>frames := frames w @ [f]\<rparr>)"

text \<open>\<^verbatim>\<open>df.copy(deep=True)\<close>: a new object with the same content.\<close>

definition copy :: "nat \<Rightarrow> world \<Rightarrow> nat outcome" where
  "copy r w = alloc (deref w r) w"

text \<open>
  \<^verbatim>\<open>DataFrame.reset_index()\<close> on a single-level index: the index becomes the first
  column, named after the index, or \<^verbatim>\<open>index\<close>, or \<^verbatim>\<open>level_0\<close> when a column
  \<^verbatim>\<open>index\<close> exists; inserting a label that exists raises ValueError. The new index is
  0, 1, ...
\<close>

definition reset_index_frame :: "frame \<Rightarrow> error + frame" where
  "reset_index_frame f =
     (let names = map name (columns f);
          new = (case index_name f of
                   Some l \<Rightarrow> l
                 | None \<Rightarrow> if StrLabel ''index'' \<in> set names then StrLabel ''level_0''
                           else StrLabel ''index'')
      in if new \<in> set names then Inl (ValueError ''cannot insert, already exists'')
         else Inr \<lparr>columns = \<lparr>name = new, dtype = index_dtype f, cells = index_cells f\<rparr> # columns f,
                   index_name = None,
                   index_dtype = Int64Dtype,
                   index_cells = map (\<lambda>i. IntCell (int i)) [0..<length (index_cells f)]\<rparr>)"

definition reset_index :: "nat \<Rightarrow> world \<Rightarrow> nat outcome" where
  "reset_index r w =
     (case reset_index_frame (deref w r) of Inl e \<Rightarrow> (Inl e, w) | Inr f \<Rightarrow> alloc f w)"

text \<open>
  \<^verbatim>\<open>df.replace({True: 1, False: 0})\<close>: a new object, column by column. A value equal to
  \<^verbatim>\<open>True\<close> becomes 1 and a value equal to \<^verbatim>\<open>False\<close> becomes 0 (\<^verbatim>\<open>True == 1 == 1.0\<close> in
  Python), and pandas infers the dtype of the column again:
  \<^item> a \<^verbatim>\<open>bool\<close> column becomes an \<^verbatim>\<open>int64\<close> column of 1 and 0;
  \<^item> an \<^verbatim>\<open>object\<close> column whose values are then all integers becomes \<^verbatim>\<open>int64\<close>; one
    whose values are integers, floats and nulls, with a float or a null among them,
    becomes \<^verbatim>\<open>float64\<close>, so that its integers, the 1 and 0 of the booleans among them,
    are floats; any other \<^verbatim>\<open>object\<close> column stays as it is after the replacement;
  \<^item> a column of the nullable dtype \<^verbatim>\<open>boolean\<close> cannot hold 1 and 0: TypeError;
  \<^item> in an \<^verbatim>\<open>int64\<close>, \<^verbatim>\<open>float64\<close> or \<^verbatim>\<open>datetime64\<close> column a value equal to
    \<^verbatim>\<open>True\<close> or \<^verbatim>\<open>False\<close> is replaced by the number it equals, and the column is
    written as before.
\<close>

fun replace_cell :: "cell \<Rightarrow> cell" where
  "replace_cell (BoolCell b) = IntCell (if b then 1 else 0)"
| "replace_cell (FloatCell s) =
     (if s = ''1.0'' then IntCell 1
      else if s = ''0.0'' \<or> s = ''-0.0'' then IntCell 0
      else FloatCell s)"
| "replace_cell c = c"

fun is_number_or_null :: "cell \<Rightarrow> bool" where
  "is_number_or_null NullCell = True"
| "is_number_or_null (IntCell i) = True"
| "is_number_or_null (FloatCell s) = True"
| "is_number_or_null c = False"

fun is_int :: "cell \<Rightarrow> bool" where
  "is_int (IntCell i) = True"
| "is_int c = False"

text \<open>The float of an integer, as \<^verbatim>\<open>repr\<close> writes it.\<close>

definition float_text :: "env \<Rightarrow> int \<Rightarrow> string" where
  "float_text env i =
     (if \<bar>i\<bar> < 10000000000000000 then str_int i @ ''.0'' else repr_float env i)"

fun as_float :: "env \<Rightarrow> cell \<Rightarrow> cell" where
  "as_float env (IntCell i) = FloatCell (float_text env i)"
| "as_float env c = c"

text \<open>The inference of the dtype of an \<^verbatim>\<open>object\<close> column after the replacement.\<close>

definition convert_column :: "env \<Rightarrow> column \<Rightarrow> column" where
  "convert_column env c =
     (if list_all is_int (cells c) then c\<lparr>dtype := Int64Dtype\<rparr>
      else if list_all is_number_or_null (cells c) \<and> \<not> list_all (\<lambda>x. x = NullCell) (cells c)
      then c\<lparr>dtype := Float64Dtype, cells := map (as_float env) (cells c)\<rparr>
      else c)"

definition replace_column :: "env \<Rightarrow> column \<Rightarrow> error + column" where
  "replace_column env c =
     (case dtype c of
        BooleanDtype \<Rightarrow> Inl (TypeError ''Need to pass bool-like values'')
      | BoolDtype \<Rightarrow> Inr (c\<lparr>dtype := Int64Dtype, cells := map replace_cell (cells c)\<rparr>)
      | ObjectDtype \<Rightarrow> Inr (convert_column env (c\<lparr>cells := map replace_cell (cells c)\<rparr>))
      | Int64Dtype \<Rightarrow> Inr c
      | Float64Dtype \<Rightarrow> Inr c
      | Datetime64Dtype \<Rightarrow> Inr c)"

fun replace_columns :: "env \<Rightarrow> column list \<Rightarrow> error + column list" where
  "replace_columns env [] = Inr []"
| "replace_columns env (c # cs) =
     (case replace_column env c of
        Inl e \<Rightarrow> Inl e
      | Inr c' \<Rightarrow> (case replace_columns env cs of Inl e \<Rightarrow> Inl e | Inr cs' \<Rightarrow> Inr (c' # cs')))"

definition replace_frame :: "env \<Rightarrow> frame \<Rightarrow> error + frame" where
  "replace_frame env f =
     (case replace_columns env (columns f) of
        Inl e \<Rightarrow> Inl e
      | Inr cs \<Rightarrow> Inr (f\<lparr>columns := cs\<rparr>))"

definition replace :: "env \<Rightarrow> nat \<Rightarrow> world \<Rightarrow> nat outcome" where
  "replace env r w =
     (case replace_frame env (deref w r) of Inl e \<Rightarrow> (Inl e, w) | Inr f \<Rightarrow> alloc f w)"

text \<open>
  \<^verbatim>\<open>to_csv(header=False, index=False)\<close> with the default \<^verbatim>\<open>na_rep=''\<close>: one record
  per row, one field per column. Quoting is not modelled: a file is its fields.
\<close>

fun field_text :: "cell \<Rightarrow> string" where
  "field_text NullCell = ''''"
| "field_text (BoolCell b) = (if b then ''True'' else ''False'')"
| "field_text (IntCell i) = str_int i"
| "field_text (FloatCell s) = s"
| "field_text (TextCell s) = s"
| "field_text (OtherCell s) = s"

definition csv_records :: "frame \<Rightarrow> string list list" where
  "csv_records f =
     map (\<lambda>i. map (\<lambda>c. field_text (cells c ! i)) (columns f)) [0..<length (index_cells f)]"

definition write_file :: "io_outcome \<Rightarrow> path \<Rightarrow> file_content \<Rightarrow> world \<Rightarrow> unit outcome" where
  "write_file io p content w =
     (case io of
        OpenFails \<Rightarrow> (Inl (OSError p), w)
      | WriteFails \<Rightarrow>
          (Inl (OSError p), log (FileWritten p Partial) (w\<lparr>files := AList.update p Partial (files w)\<rparr>))
      | IoOk \<Rightarrow>
          (Inr (), log (FileWritten p content) (w\<lparr>files := AList.update p content (files w)\<rparr>)))"

definition to_csv :: "env \<Rightarrow> nat \<Rightarrow> path \<Rightarrow> char \<Rightarrow> world \<Rightarrow> unit outcome" where
  "to_csv env r path_or_buf sep w =
     write_file (to_csv_io env) path_or_buf (Csv (csv_records (deref w r)) sep (NEWLINE env)) w"

text \<open>\<^verbatim>\<open>os.remove\<close>.\<close>

definition os_remove :: "path \<Rightarrow> world \<Rightarrow> unit outcome" where
  "os_remove p w =
     (if map_of (files w) p = None then (Inl (FileNotFoundError p), w)
      else (Inr (), log (FileRemoved p) (w\<lparr>files := AList.delete p (files w)\<rparr>)))"

text \<open>
  \<^verbatim>\<open>SQLTable.create()\<close> of pandas: an existing table raises under fail, is dropped and
  created again under replace, is left alone under append.
\<close>

definition table_columns :: "frame \<Rightarrow> (string \<times> int) list" where
  "table_columns f =
     zip (map (\<lambda>c. str (name c)) (columns f)) (map int [1..<Suc (length (columns f))])"

definition execute_create :: "string \<Rightarrow> string \<Rightarrow> frame \<Rightarrow> world \<Rightarrow> world" where
  "execute_create sch tbl f w =
     log (TableCreated sch tbl (map (\<lambda>c. str (name c)) (columns f)))
       (w\<lparr>db := AList.update (sch, tbl) (table_columns f) (db w)\<rparr>)"

definition drop_table :: "string \<Rightarrow> string \<Rightarrow> world \<Rightarrow> world" where
  "drop_table sch tbl w = log (TableDropped sch tbl) (w\<lparr>db := AList.delete (sch, tbl) (db w)\<rparr>)"

definition SQLTable_create :: "env \<Rightarrow> string \<Rightarrow> string \<Rightarrow> frame \<Rightarrow> string \<Rightarrow> world \<Rightarrow> unit outcome" where
  "SQLTable_create env sch tbl f ife w =
     (if create_fails env then (Inl DatabaseError, w)
      else if map_of (db w) (sch, tbl) \<noteq> None then
        (if ife = ''fail'' then (Inl (ValueError ''Table already exists''), w)
         else if ife = ''replace'' then (Inr (), execute_create sch tbl f (drop_table sch tbl w))
         else if ife = ''append'' then (Inr (), w)
         else (Inl (ValueError ''not valid for if_exists''), w))
      else (Inr (), execute_create sch tbl f w))"

section \<open>The functions of utils.py\<close>

text \<open>
  Modelled from the spec: \<^verbatim>\<open>get_temp_file\<close> (bcpandas/utils.py is not among the
  sources). Section 5: scratch files are globally unique temporary paths; section 4.2:
  the serializer writes to a newly created file, so the path is only named here.
\<close>

definition get_temp_file :: "world \<Rightarrow> path outcome" where
  "get_temp_file w = (Inr (TempFile (next_temp w)), w\<lparr>next_temp := Suc (next_temp w)\<rparr>)"

text \<open>
  Modelled from the spec: \<^verbatim>\<open>build_format_file\<close> (bcpandas/utils.py is not among the
  sources). Section 4.3: one record per source column, with the column's 1-based position
  in the flat file, the host type tag looked up from the semantic type, the terminator
  (the delimiter for all but the last field, the line terminator for the last) and the
  destination ordinal. The destination ordinal is the file ordinal under fail and replace
  and under append against a table that does not exist yet, and is looked up by column
  name under append against an existing table. The builder is given only the mapping:
  \<^verbatim>\<open>to_sql\<close> passes \<^verbatim>\<open>None\<close> under fail and replace and the dict of the catalog's
  rows under append, which has no entry when the table does not exist; so the file
  ordinal is used when the mapping is absent or has no entry. A name the mapping lacks
  raises KeyError, as a dict does.
\<close>

definition resolve_destination :: "(string \<times> int) list option \<Rightarrow> nat \<Rightarrow> string \<Rightarrow> error + int" where
  "resolve_destination db_cols_order col_num col_name =
     (case db_cols_order of
        None \<Rightarrow> Inr (int col_num)
      | Some d \<Rightarrow>
          if d = [] then Inr (int col_num)
          else (case map_of d col_name of None \<Rightarrow> Inl (KeyError col_name) | Some k \<Rightarrow> Inr k))"

fun format_fields ::
  "env \<Rightarrow> char \<Rightarrow> (string \<times> int) list option \<Rightarrow> nat \<Rightarrow> nat \<Rightarrow> column list
     \<Rightarrow> error + field_descriptor list" where
  "format_fields env delimiter db_cols_order n col_num [] = Inr []"
| "format_fields env delimiter db_cols_order n col_num (c # cs) =
     (case resolve_destination db_cols_order col_num (str (name c)) of
        Inl e \<Rightarrow> Inl e
      | Inr dest \<Rightarrow>
          (case format_fields env delimiter db_cols_order n (Suc col_num) cs of
             Inl e \<Rightarrow> Inl e
           | Inr ds \<Rightarrow>
               Inr (\<lparr>file_ordinal = col_num,
                     destination_ordinal = dest,
                     terminator_bytes = (if col_num \<noteq> n then [delimiter] else NEWLINE env),
                     type_tag = host_type env (dtype c),
                     source_column_name = str (name c)\<rparr> # ds)))"

definition build_format_file ::
  "env \<Rightarrow> frame \<Rightarrow> char \<Rightarrow> (string \<times> int) list option \<Rightarrow> error + field_descriptor list" where
  "build_format_file env f delimiter db_cols_order =
     format_fields env delimiter db_cols_order (length (columns f)) 1 (columns f)"

text \<open>
  Modelled from the spec: \<^verbatim>\<open>bcp\<close> (bcpandas/utils.py is not among the sources).
  Section 6: the external process is invoked with the arguments; exit code 0 is success,
  another exit code is a failure.
\<close>

definition bcp :: "env \<Rightarrow> bcp_call \<Rightarrow> world \<Rightarrow> unit outcome" where
  "bcp env c w = ((if bcp_fails env then Inl BcpError else Inr ()), log (BcpInvoked c) w)"

section \<open>The functions of main.py\<close>

text \<open>\<^verbatim>\<open>_sql_item_exists\<close> (lines 158 to 168): one catalog query.\<close>

definition priv_sql_item_exists :: "env \<Rightarrow> string \<Rightarrow> string \<Rightarrow> string \<Rightarrow> world \<Rightarrow> bool outcome" where
  "priv_sql_item_exists env typ sch tbl w =
     (if exists_query_fails env then (Inl DatabaseError, log (ExistsQueried typ sch tbl) w)
      else (Inr (map_of (db w) (sch, tbl) \<noteq> None), log (ExistsQueried typ sch tbl) w))"

text \<open>\<^verbatim>\<open>_create_table\<close> (lines 171 to 187).\<close>

definition priv_create_table ::
  "env \<Rightarrow> string \<Rightarrow> string \<Rightarrow> nat \<Rightarrow> string \<Rightarrow> (string \<times> string) list option \<Rightarrow> string list option
     \<Rightarrow> world \<Rightarrow> unit outcome" where
  "priv_create_table env sch tbl r ife dty ks w = SQLTable_create env sch tbl (deref w r) ife w"

subsection \<open>to_sql, lines 248 to 264: validation, index, delimiter\<close>

definition is_empty :: "frame \<Rightarrow> bool" where
  "is_empty f = (fst (shape f) = 0 \<or> snd (shape f) = 0)"

definition validate :: "env \<Rightarrow> args \<Rightarrow> frame \<Rightarrow> error + unit" where
  "validate env a f =
     (if sql_type a \<noteq> TABLE env then Inl (AssertionError ''only supporting table, not view, for now'')
      else if if_exists a \<notin> set (IF_EXISTS_OPTIONS env) then Inl (AssertionError [])
      else if has_duplicates f then Inl (BCPandasValueError (DuplicateNames (duplicated f)))
      else Inr ())"

definition materialize :: "args \<Rightarrow> world \<Rightarrow> nat outcome" where
  "materialize a = (if index a then bind (copy (df a)) reset_index else lift (Inr (df a)))"

definition select :: "env \<Rightarrow> nat \<Rightarrow> world \<Rightarrow> (char \<times> char) outcome" where
  "select env r w =
     (case get_delimiter env (deref w r) of
        Inl e \<Rightarrow> (Inl e, w)
      | Inr delim \<Rightarrow>
          (case get_quotechar env (deref w r) of
             Inl e \<Rightarrow> (Inl e, w)
           | Inr quotechar \<Rightarrow> (Inr (delim, quotechar), w)))"

text \<open>The locals \<open>(df, delim, quotechar)\<close> after line 264.\<close>

definition validated :: "env \<Rightarrow> args \<Rightarrow> world \<Rightarrow> (nat \<times> char \<times> char) outcome" where
  "validated env a =
     bind (\<lambda>w. lift (validate env a (deref w (df a))) w)
       (\<lambda>_. bind (materialize a)
         (\<lambda>df1. bind (select env df1)
           (\<lambda>(delim, quotechar). lift (Inr (df1, delim, quotechar)))))"

subsection \<open>Lines 266 to 288: batch size, flat file\<close>

definition check_batch_size :: "int option \<Rightarrow> frame \<Rightarrow> error + unit" where
  "check_batch_size bs f =
     (case bs of
        None \<Rightarrow> Inr ()
      | Some b \<Rightarrow>
          if b = 0 then Inl (BCPandasValueError BatchSizeZero)
          else if b > int (fst (shape f)) then Inl (BCPandasValueError BatchSizeTooLarge)
          else Inr ())"

text \<open>The locals \<open>(df, delim, csv_file_path)\<close> after line 288.\<close>

definition serialized :: "env \<Rightarrow> args \<Rightarrow> world \<Rightarrow> (nat \<times> char \<times> path) outcome" where
  "serialized env a =
     bind (validated env a)
       (\<lambda>(df1, delim, quotechar).
          bind (\<lambda>w. lift (check_batch_size (batch_size a) (deref w df1)) w)
            (\<lambda>_. bind get_temp_file
              (\<lambda>csv_file_path. bind (replace env df1)
                (\<lambda>replaced. bind (to_csv env replaced csv_file_path delim)
                  (\<lambda>_. lift (Inr (df1, delim, csv_file_path)))))))"

subsection \<open>Lines 291 to 322: the catalog\<close>

text \<open>\<^verbatim>\<open>dict(rows)\<close>: a later row with the same key replaces the value.\<close>

definition py_dict :: "('k \<times> 'v) list \<Rightarrow> ('k \<times> 'v) list" where
  "py_dict rows = fold (\<lambda>(k, v). AList.update k v) rows []"

definition read_columns :: "env \<Rightarrow> string \<Rightarrow> string \<Rightarrow> world \<Rightarrow> (string \<times> int) list outcome" where
  "read_columns env sch tbl w =
     (if columns_query_fails env then (Inl DatabaseError, log (ColumnsQueried sch tbl) w)
      else (Inr (py_dict (case map_of (db w) (sch, tbl) of None \<Rightarrow> [] | Some rows \<Rightarrow> rows)),
            log (ColumnsQueried sch tbl) w))"

definition extra_cols :: "frame \<Rightarrow> (string \<times> int) list \<Rightarrow> string list" where
  "extra_cols f cols_dict =
     filter (\<lambda>x. x \<notin> fst ` set cols_dict) (map (\<lambda>c. str (name c)) (columns f))"

text \<open>The locals \<open>(df, delim, csv_file_path, fmt_file_path, sql_item_exists)\<close> after line 295.\<close>

definition looked_up :: "env \<Rightarrow> args \<Rightarrow> world \<Rightarrow> (nat \<times> char \<times> path \<times> path \<times> bool) outcome" where
  "looked_up env a =
     bind (serialized env a)
       (\<lambda>(df1, delim, csv_file_path).
          bind get_temp_file
            (\<lambda>fmt_file_path.
               bind (priv_sql_item_exists env (sql_type a) (schema a) (table_name a))
                 (\<lambda>sql_item_exists. lift (Inr (df1, delim, csv_file_path, fmt_file_path, sql_item_exists)))))"

definition reconcile ::
  "env \<Rightarrow> args \<Rightarrow> nat \<Rightarrow> bool \<Rightarrow> world \<Rightarrow> (string \<times> int) list option outcome" where
  "reconcile env a df1 sql_item_exists =
     (if if_exists a = ''append'' then
        bind (read_columns env (schema a) (table_name a))
          (\<lambda>cols_dict w.
             if sql_item_exists \<and> extra_cols (deref w df1) cols_dict \<noteq> [] then
               (Inl (BCPandasValueError (ExtraColumns (extra_cols (deref w df1) cols_dict))), w)
             else (Inr (Some cols_dict), w))
      else lift (Inr None))"

text \<open>The locals after line 322, \<open>cols_dict\<close> among them.\<close>

definition reconciled ::
  "env \<Rightarrow> args \<Rightarrow> world \<Rightarrow> (nat \<times> char \<times> path \<times> path \<times> bool \<times> (string \<times> int) list option) outcome" where
  "reconciled env a =
     bind (looked_up env a)
       (\<lambda>(df1, delim, csv_file_path, fmt_file_path, sql_item_exists).
          bind (reconcile env a df1 sql_item_exists)
            (\<lambda>cols_dict.
               lift (Inr (df1, delim, csv_file_path, fmt_file_path, sql_item_exists, cols_dict))))"

subsection \<open>Lines 324 to 327: the format file\<close>

definition write_format_file ::
  "env \<Rightarrow> nat \<Rightarrow> char \<Rightarrow> (string \<times> int) list option \<Rightarrow> path \<Rightarrow> world \<Rightarrow> unit outcome" where
  "write_format_file env df1 delim cols_dict fmt_file_path w =
     (case build_format_file env (deref w df1) delim cols_dict of
        Inl e \<Rightarrow> (Inl e, w)
      | Inr fmt_file_txt \<Rightarrow> write_file (format_file_io env) fmt_file_path (Fmt fmt_file_txt) w)"

text \<open>
  The locals \<open>(df, csv_file_path, fmt_file_path, sql_item_exists)\<close> after line 327, when
  nothing was raised before the \<^verbatim>\<open>try\<close>.
\<close>

definition prepared :: "env \<Rightarrow> args \<Rightarrow> world \<Rightarrow> (nat \<times> path \<times> path \<times> bool) outcome" where
  "prepared env a =
     bind (reconciled env a)
       (\<lambda>(df1, delim, csv_file_path, fmt_file_path, sql_item_exists, cols_dict).
          bind (write_format_file env df1 delim cols_dict fmt_file_path)
            (\<lambda>_. lift (Inr (df1, csv_file_path, fmt_file_path, sql_item_exists))))"

subsection \<open>Lines 329 to 375: the load and the cleanup\<close>

definition py_format :: "string option \<Rightarrow> string" where
  "py_format v = (case v of None \<Rightarrow> ''None'' | Some s \<Rightarrow> s)"

definition apply_policy :: "env \<Rightarrow> args \<Rightarrow> nat \<Rightarrow> bool \<Rightarrow> world \<Rightarrow> unit outcome" where
  "apply_policy env a df1 sql_item_exists =
     (if if_exists a = ''fail'' then
        (if sql_item_exists then
           lift (Inl (BCPandasValueError (AlreadyExists (sql_type a) (schema a) (table_name a))))
         else priv_create_table env (schema a) (table_name a) df1 (if_exists a) (dtypes a) (keys a))
      else if if_exists a = ''replace'' then
        priv_create_table env (schema a) (table_name a) df1 (if_exists a) (dtypes a) (keys a)
      else if if_exists a = ''append'' then
        (if \<not> sql_item_exists then
           priv_create_table env (schema a) (table_name a) df1 (if_exists a) (dtypes a) (keys a)
         else lift (Inr ()))
      else lift (Inr ()))"

definition load :: "env \<Rightarrow> args \<Rightarrow> nat \<Rightarrow> bool \<Rightarrow> path \<Rightarrow> path \<Rightarrow> world \<Rightarrow> unit outcome" where
  "load env a df1 sql_item_exists csv_file_path fmt_file_path =
     bind (apply_policy env a df1 sql_item_exists)
       (\<lambda>_. bcp env
          \<lparr>bcp_sql_item = table_name a,
           bcp_direction = IN env,
           bcp_flat_file = csv_file_path,
           bcp_format_file_path = fmt_file_path,
           bcp_sql_type = sql_type a,
           bcp_schema = schema a,
           bcp_batch_size = batch_size a,
           bcp_bcp_path = bcp_path a,
           bcp_error_file_path = py_format (error_path a) @ ''/'' @ table_name a @ ''_bcp_error.txt''\<rparr>)"

definition cleanup :: "args \<Rightarrow> path \<Rightarrow> path \<Rightarrow> world \<Rightarrow> unit outcome" where
  "cleanup a csv_file_path fmt_file_path =
     (if \<not> debug a then bind (os_remove csv_file_path) (\<lambda>_. os_remove fmt_file_path)
      else lift (Inr ()))"

text \<open>\<^verbatim>\<open>try: body finally: handler\<close>: an exception of the handler replaces the body's.\<close>

definition try_finally :: "(world \<Rightarrow> 'a outcome) \<Rightarrow> (world \<Rightarrow> unit outcome) \<Rightarrow> world \<Rightarrow> 'a outcome" where
  "try_finally body handler w =
     (case body w of
        (r, w1) \<Rightarrow> (case handler w1 of (Inl e, w2) \<Rightarrow> (Inl e, w2) | (Inr _, w2) \<Rightarrow> (r, w2)))"

definition to_sql :: "env \<Rightarrow> args \<Rightarrow> world \<Rightarrow> unit outcome" where
  "to_sql env a w =
     (if is_empty (deref w (df a)) then (Inr (), w)
      else
        bind (prepared env a)
          (\<lambda>(df1, csv_file_path, fmt_file_path, sql_item_exists).
             try_finally (load env a df1 sql_item_exists csv_file_path fmt_file_path)
               (cleanup a csv_file_path fmt_file_path)) w)"

text \<open>The events of one invocation.\<close>

definition emitted :: "env \<Rightarrow> args \<Rightarrow> world \<Rightarrow> event list" where
  "emitted env a w = drop (length (trace w)) (trace (snd (to_sql env a w)))"

section \<open>Invariants of sequences of steps\<close>

definition keeps :: "(world \<Rightarrow> world \<Rightarrow> bool) \<Rightarrow> (world \<Rightarrow> 'a outcome) \<Rightarrow> bool" where
  "keeps R m = (\<forall>w. R w (snd (m w)))"

text \<open>Objects are only allocated, and the trace is only extended, by events in \<open>P\<close>.\<close>

definition grows :: "(event \<Rightarrow> bool) \<Rightarrow> world \<Rightarrow> world \<Rightarrow> bool" where
  "grows P w w' =
     ((\<exists>fs. frames w' = frames w @ fs) \<and> (\<exists>evs. trace w' = trace w @ evs \<and> list_all P evs))"

definition unchanged :: "(world \<Rightarrow> 'x) \<Rightarrow> world \<Rightarrow> world \<Rightarrow> bool" where
  "unchanged sel w w' = (sel w' = sel w)"

text \<open>Every exception that a sequence of steps raises is in \<open>Q\<close>.\<close>

definition raises :: "(error \<Rightarrow> bool) \<Rightarrow> (world \<Rightarrow> 'a outcome) \<Rightarrow> bool" where
  "raises Q m = (\<forall>w e w'. m w = (Inl e, w') \<longrightarrow> Q e)"

text \<open>The events of lines 274 to 327.\<close>

fun prepares :: "event \<Rightarrow> bool" where
  "prepares (FileWritten p c) = True"
| "prepares (ExistsQueried t s n) = True"
| "prepares (ColumnsQueried s n) = True"
| "prepares ev = False"

text \<open>The paths that a list of events writes and removes.\<close>

fun written :: "event list \<Rightarrow> path list" where
  "written [] = []"
| "written (FileWritten p c # evs) = p # written evs"
| "written (ev # evs) = written evs"

fun removed :: "event list \<Rightarrow> path list" where
  "removed [] = []"
| "removed (FileRemoved p # evs) = p # removed evs"
| "removed (ev # evs) = removed evs"

section \<open>An example\<close>

definition example_env :: env where
  "example_env =
     \<lparr>TABLE = ''table'', IF_EXISTS_OPTIONS = [''fail'', ''replace'', ''append''], IN = ''in'',
      NEWLINE = [CHR 0x0A],
      get_delimiter = (\<lambda>_. Inr CHR '',''), get_quotechar = (\<lambda>_. Inr (CHR 0x22)),
      host_type = (\<lambda>_. ''SQLCHAR''), repr_float = (\<lambda>_. ''inf''),
      to_csv_io = IoOk, exists_query_fails = False, columns_query_fails = False,
      format_file_io = IoOk, create_fails = False, bcp_fails = False\<rparr>"

definition example_frame :: frame where
  "example_frame =
     \<lparr>columns =
        [\<lparr>name = StrLabel ''id'', dtype = Int64Dtype, cells = [IntCell 7, IntCell 8, IntCell 9]\<rparr>,
         \<lparr>name = StrLabel ''ok'', dtype = BoolDtype,
          cells = [BoolCell True, BoolCell True, BoolCell False]\<rparr>],
      index_name = None, index_dtype = Int64Dtype,
      index_cells = [IntCell 0, IntCell 1, IntCell 2]\<rparr>"

definition no_rows_frame :: frame where
  "no_rows_frame =
     \<lparr>columns = [\<lparr>name = StrLabel ''id'', dtype = Int64Dtype, cells = []\<rparr>],
      index_name = None, index_dtype = Int64Dtype, index_cells = []\<rparr>"

definition twice_id_frame :: frame where
  "twice_id_frame =
     \<lparr>columns =
        [\<lparr>name = StrLabel ''id'', dtype = Int64Dtype, cells = [IntCell 7]\<rparr>,
         \<lparr>name = StrLabel ''id'', dtype = Int64Dtype, cells = [IntCell 8]\<rparr>],
      index_name = None, index_dtype = Int64Dtype, index_cells = [IntCell 0]\<rparr>"

text \<open>
  A column of booleans beside a null, as pandas stores it (dtype \<^verbatim>\<open>object\<close>), and the
  same column with the nullable dtype \<^verbatim>\<open>boolean\<close>.
\<close>

definition bool_null_frame :: frame where
  "bool_null_frame =
     \<lparr>columns =
        [\<lparr>name = StrLabel ''id'', dtype = Int64Dtype, cells = [IntCell 7, IntCell 8, IntCell 9]\<rparr>,
         \<lparr>name = StrLabel ''ok'', dtype = ObjectDtype,
          cells = [BoolCell True, NullCell, BoolCell False]\<rparr>],
      index_name = None, index_dtype = Int64Dtype,
      index_cells = [IntCell 0, IntCell 1, IntCell 2]\<rparr>"

definition nullable_boolean_frame :: frame where
  "nullable_boolean_frame =
     \<lparr>columns =
        [\<lparr>name = StrLabel ''id'', dtype = Int64Dtype, cells = [IntCell 7, IntCell 8, IntCell 9]\<rparr>,
         \<lparr>name = StrLabel ''ok'', dtype = BooleanDtype,
          cells = [BoolCell True, NullCell, BoolCell False]\<rparr>],
      index_name = None, index_dtype = Int64Dtype,
      index_cells = [IntCell 0, IntCell 1, IntCell 2]\<rparr>"

text \<open>The catalog holds one table, \<^verbatim>\<open>dbo.t\<close>, with the columns ok, extra, id.\<close>

definition example_world :: world where
  "example_world =
     \<lparr>frames = [example_frame, no_rows_frame, twice_id_frame], files = [], next_temp = 0,
      db = [((''dbo'', ''t''), [(''ok'', 1), (''extra'', 2), (''id'', 3)])], trace = []\<rparr>"

definition bool_null_world :: world where
  "bool_null_world = example_world\<lparr>frames := [bool_null_frame, nullable_boolean_frame]\<rparr>"

definition example_args :: args where
  "example_args =
     \<lparr>df = 0, table_name = ''t'', sql_type = ''table'', schema = ''dbo'', index = False,
      if_exists = ''append'', batch_size = None, debug = False, bcp_path = None, dtypes = None,
      keys = None, error_path = None\<rparr>"

section \<open>Sequencing lemmas\<close>

lemma keepsD: "keeps R m \<Longrightarrow> m w = (r, w') \<Longrightarrow> R w w'"
  by (auto simp: keeps_def dest: spec [of _ w])

lemma keeps_bind:
  assumes "transp R" "keeps R m" "\<And>x. keeps R (k x)"
  shows "keeps R (bind m k)"
  unfolding keeps_def
proof
  fix w
  obtain r w1 where m: "m w = (r, w1)" by (cases "m w")
  have 1: "R w w1" using assms(2) m by (rule keepsD)
  show "R w (snd (bind m k w))"
  proof (cases r)
    case (Inl e)
    then show ?thesis using m 1 by (simp add: bind_def)
  next
    case (Inr x)
    obtain r2 w2 where k: "k x w1 = (r2, w2)" by (cases "k x w1")
    have "R w1 w2" using assms(3) k by (rule keepsD)
    with 1 have "R w w2" using assms(1) by (blast dest: transpD)
    then show ?thesis using m Inr k by (simp add: bind_def)
  qed
qed

lemma keeps_lift: "reflp R \<Longrightarrow> keeps R (lift r)"
  by (simp add: keeps_def lift_def reflpD)

lemma keeps_lift_fun: "reflp R \<Longrightarrow> keeps R (\<lambda>w. lift (f w) w)"
  by (simp add: keeps_def lift_def reflpD)

lemma keeps_case_prod: "(\<And>a b. keeps R (k a b)) \<Longrightarrow> keeps R (case_prod k x)"
  by (cases x) simp

lemma keeps_if: "keeps R m \<Longrightarrow> keeps R n \<Longrightarrow> keeps R (if b then m else n)"
  by simp

lemma keeps_try_finally:
  assumes "transp R" "keeps R body" "keeps R handler"
  shows "keeps R (try_finally body handler)"
  unfolding keeps_def
proof
  fix w
  obtain r w1 where b: "body w = (r, w1)" by (cases "body w")
  obtain r2 w2 where h: "handler w1 = (r2, w2)" by (cases "handler w1")
  have "R w w1" "R w1 w2" using assms b h by (blast dest: keepsD)+
  then have "R w w2" using assms(1) by (blast dest: transpD)
  then show "R w (snd (try_finally body handler w))"
    using b h by (simp add: try_finally_def split: sum.splits)
qed

lemma reflp_grows: "reflp (grows P)"
  by (simp add: reflp_def grows_def)

lemma transp_grows: "transp (grows P)"
  unfolding transp_def grows_def
  by (metis append.assoc list_all_append)

lemma reflp_unchanged: "reflp (unchanged sel)"
  by (simp add: reflp_def unchanged_def)

lemma transp_unchanged: "transp (unchanged sel)"
  by (simp add: transp_def unchanged_def)

section \<open>What each step may do\<close>

lemma grows_copy: "keeps (grows P) (copy r)"
  by (simp add: keeps_def copy_def alloc_def grows_def)

lemma grows_reset_index: "keeps (grows P) (reset_index r)"
  by (simp add: keeps_def reset_index_def alloc_def grows_def split: sum.splits)

lemma grows_replace: "keeps (grows P) (replace env r)"
  by (simp add: keeps_def replace_def alloc_def grows_def split: sum.splits)

lemma grows_select: "keeps (grows P) (select env r)"
  by (simp add: keeps_def select_def grows_def split: sum.splits)

lemma grows_get_temp_file: "keeps (grows P) get_temp_file"
  by (simp add: keeps_def get_temp_file_def grows_def)

lemma grows_to_csv: "(\<And>c. P (FileWritten p c)) \<Longrightarrow> keeps (grows P) (to_csv env r p sep)"
  by (simp add: keeps_def to_csv_def write_file_def grows_def log_def split: io_outcome.splits)

lemma grows_os_remove: "P (FileRemoved p) \<Longrightarrow> keeps (grows P) (os_remove p)"
  by (simp add: keeps_def os_remove_def grows_def log_def)

lemma grows_sql_item_exists:
  "P (ExistsQueried typ sch tbl) \<Longrightarrow> keeps (grows P) (priv_sql_item_exists env typ sch tbl)"
  by (simp add: keeps_def priv_sql_item_exists_def grows_def log_def)

lemma grows_read_columns:
  "P (ColumnsQueried sch tbl) \<Longrightarrow> keeps (grows P) (read_columns env sch tbl)"
  by (simp add: keeps_def read_columns_def grows_def log_def)

lemma grows_create_table:
  "P (TableDropped sch tbl) \<Longrightarrow> (\<And>cs. P (TableCreated sch tbl cs)) \<Longrightarrow>
   keeps (grows P) (priv_create_table env sch tbl r ife dty ks)"
  by (simp add: keeps_def priv_create_table_def SQLTable_create_def execute_create_def
      drop_table_def grows_def log_def)

lemma grows_bcp: "P (BcpInvoked c) \<Longrightarrow> keeps (grows P) (bcp env c)"
  by (simp add: keeps_def bcp_def grows_def log_def)

lemma grows_validated: "keeps (grows P) (validated env a)"
  unfolding validated_def materialize_def
  by (intro keeps_bind keeps_if keeps_case_prod keeps_lift keeps_lift_fun transp_grows
      reflp_grows grows_copy grows_reset_index grows_select)

lemma grows_serialized:
  assumes "\<And>p c. P (FileWritten p c)"
  shows "keeps (grows P) (serialized env a)"
  unfolding serialized_def
  by (intro keeps_bind keeps_if keeps_case_prod keeps_lift keeps_lift_fun transp_grows
      reflp_grows grows_validated grows_get_temp_file grows_replace grows_to_csv assms)

lemma grows_looked_up:
  assumes "\<And>p c. P (FileWritten p c)" "\<And>t s n. P (ExistsQueried t s n)"
  shows "keeps (grows P) (looked_up env a)"
  unfolding looked_up_def
  by (intro keeps_bind keeps_if keeps_case_prod keeps_lift keeps_lift_fun transp_grows
      reflp_grows grows_serialized grows_get_temp_file grows_sql_item_exists assms)

lemma grows_reconcile:
  assumes "\<And>s n. P (ColumnsQueried s n)"
  shows "keeps (grows P) (reconcile env a r ex)"
proof -
  have "keeps (grows P) (\<lambda>w. if c w then (Inl (e w), w) else (Inr x, w))"
    for c e and x :: "(string \<times> int) list option"
    by (simp add: keeps_def grows_def)
  then show ?thesis
    unfolding reconcile_def
    by (intro keeps_bind keeps_if keeps_lift transp_grows reflp_grows grows_read_columns assms)
qed

lemma grows_reconciled:
  assumes "\<And>p c. P (FileWritten p c)" "\<And>t s n. P (ExistsQueried t s n)"
    "\<And>s n. P (ColumnsQueried s n)"
  shows "keeps (grows P) (reconciled env a)"
  unfolding reconciled_def
  by (intro keeps_bind keeps_if keeps_case_prod keeps_lift keeps_lift_fun transp_grows
      reflp_grows grows_looked_up grows_reconcile assms)

lemma grows_write_format_file:
  "(\<And>c. P (FileWritten p c)) \<Longrightarrow> keeps (grows P) (write_format_file env r d cd p)"
  by (simp add: keeps_def write_format_file_def write_file_def grows_def log_def
      split: io_outcome.splits sum.splits)

lemma grows_prepared:
  assumes "\<And>p c. P (FileWritten p c)" "\<And>t s n. P (ExistsQueried t s n)"
    "\<And>s n. P (ColumnsQueried s n)"
  shows "keeps (grows P) (prepared env a)"
  unfolding prepared_def
  by (intro keeps_bind keeps_if keeps_case_prod keeps_lift keeps_lift_fun transp_grows
      reflp_grows grows_reconciled grows_write_format_file assms)

lemma grows_apply_policy:
  assumes "P (TableDropped (schema a) (table_name a))"
    "\<And>cs. P (TableCreated (schema a) (table_name a) cs)"
  shows "keeps (grows P) (apply_policy env a r ex)"
  unfolding apply_policy_def
  by (intro keeps_if keeps_lift reflp_grows grows_create_table assms)

lemma grows_cleanup:
  assumes "\<And>p. P (FileRemoved p)"
  shows "keeps (grows P) (cleanup a p q)"
  unfolding cleanup_def
  by (intro keeps_bind keeps_if keeps_lift transp_grows reflp_grows grows_os_remove assms)

lemma validated_unchanged:
  "keeps (unchanged files) (validated env a)"
  "keeps (unchanged next_temp) (validated env a)"
  "keeps (unchanged db) (validated env a)"
  "keeps (unchanged trace) (validated env a)"
  unfolding validated_def materialize_def
  by (intro keeps_bind keeps_if keeps_case_prod keeps_lift keeps_lift_fun transp_unchanged
      reflp_unchanged;
      simp add: keeps_def unchanged_def copy_def alloc_def reset_index_def select_def
        split: sum.splits)+

lemma prepared_unchanged_db: "keeps (unchanged db) (prepared env a)"
  unfolding prepared_def reconciled_def looked_up_def serialized_def reconcile_def
  by (intro keeps_bind keeps_if keeps_case_prod keeps_lift keeps_lift_fun transp_unchanged
      reflp_unchanged validated_unchanged;
      simp add: keeps_def unchanged_def get_temp_file_def replace_def alloc_def to_csv_def
        write_file_def log_def priv_sql_item_exists_def read_columns_def write_format_file_def
        split: sum.splits io_outcome.splits)

section \<open>What the locals are when a step is reached\<close>

lemma validated_InrD:
  assumes "validated env a w = (Inr (df1, delim, quotechar), w0)"
  shows "validate env a (deref w (df a)) = Inr ()"
    and "get_delimiter env (deref w0 df1) = Inr delim"
    and "get_quotechar env (deref w0 df1) = Inr quotechar"
    and "index a \<Longrightarrow> reset_index_frame (deref w (df a)) = Inr (deref w0 df1)"
    and "index a \<Longrightarrow> df1 = Suc (length (frames w))"
    and "index a \<Longrightarrow> frames w0 = frames w @ [deref w (df a), deref w0 df1]"
    and "\<not> index a \<Longrightarrow> df1 = df a \<and> w0 = w"
  using assms
  by (auto simp: validated_def bind_def lift_def materialize_def copy_def alloc_def
      reset_index_def select_def deref_def nth_append split: sum.splits if_splits prod.splits)

lemma reset_index_frame_shape:
  "reset_index_frame f = Inr g \<Longrightarrow> fst (shape g) = fst (shape f)"
  by (auto simp: reset_index_frame_def shape_def Let_def split: if_splits)

lemma validated_rows:
  assumes "validated env a w = (Inr (df1, delim, quotechar), w0)"
  shows "fst (shape (deref w0 df1)) = fst (shape (deref w (df a)))"
proof (cases "index a")
  case True
  then show ?thesis using validated_InrD(4) [OF assms] by (simp add: reset_index_frame_shape)
next
  case False
  then show ?thesis using validated_InrD(7) [OF assms] by simp
qed

lemma serialized_InrD:
  assumes "serialized env a w = (Inr (df1, delim, csv_file_path), w1)"
  shows "\<exists>quotechar w0 g.
      validated env a w = (Inr (df1, delim, quotechar), w0) \<and>
      check_batch_size (batch_size a) (deref w0 df1) = Inr () \<and>
      replace_frame env (deref w0 df1) = Inr g \<and>
      to_csv_io env = IoOk \<and>
      csv_file_path = TempFile (next_temp w0) \<and>
      frames w1 = frames w0 @ [g] \<and>
      files w1 = AList.update csv_file_path
        (Csv (csv_records g) delim (NEWLINE env)) (files w0) \<and>
      next_temp w1 = Suc (next_temp w0) \<and>
      db w1 = db w0 \<and>
      trace w1 = trace w0 @ [FileWritten csv_file_path
        (Csv (csv_records g) delim (NEWLINE env))]"
  using assms
  unfolding serialized_def
  by (auto simp: bind_def lift_def get_temp_file_def replace_def alloc_def to_csv_def
      write_file_def log_def deref_def
      split: sum.splits prod.splits io_outcome.splits)

lemma looked_up_InrD:
  assumes "looked_up env a w = (Inr (df1, delim, csv_file_path, fmt_file_path, ex), w2)"
  shows "\<exists>w1.
      serialized env a w = (Inr (df1, delim, csv_file_path), w1) \<and>
      \<not> exists_query_fails env \<and>
      fmt_file_path = TempFile (next_temp w1) \<and>
      ex = (map_of (db w1) (schema a, table_name a) \<noteq> None) \<and>
      frames w2 = frames w1 \<and> files w2 = files w1 \<and> next_temp w2 = Suc (next_temp w1) \<and>
      db w2 = db w1 \<and>
      trace w2 = trace w1 @ [ExistsQueried (sql_type a) (schema a) (table_name a)]"
  using assms
  unfolding looked_up_def
  by (auto simp: bind_def lift_def get_temp_file_def priv_sql_item_exists_def log_def
      split: sum.splits prod.splits if_splits)

lemma reconcile_InrD:
  assumes "reconcile env a df1 ex w2 = (Inr cd, w3)"
  shows "frames w3 = frames w2 \<and> files w3 = files w2 \<and> next_temp w3 = next_temp w2 \<and>
      db w3 = db w2 \<and>
      (if if_exists a = ''append'' then
         \<not> columns_query_fails env \<and>
         cd = Some (py_dict (case map_of (db w2) (schema a, table_name a) of
                               None \<Rightarrow> [] | Some rows \<Rightarrow> rows)) \<and>
         (ex \<longrightarrow> extra_cols (deref w2 df1) (the cd) = []) \<and>
         trace w3 = trace w2 @ [ColumnsQueried (schema a) (table_name a)]
       else cd = None \<and> trace w3 = trace w2)"
  using assms
  unfolding reconcile_def
  by (auto simp: bind_def lift_def read_columns_def log_def deref_def
      split: sum.splits prod.splits if_splits)

lemma reconciled_InrD:
  assumes "reconciled env a w = (Inr (df1, delim, csv_file_path, fmt_file_path, ex, cd), w3)"
  shows "\<exists>w2. looked_up env a w = (Inr (df1, delim, csv_file_path, fmt_file_path, ex), w2) \<and>
      reconcile env a df1 ex w2 = (Inr cd, w3)"
  using assms
  unfolding reconciled_def
  by (auto simp: bind_def lift_def split: sum.splits prod.splits)

lemma prepared_InrD:
  assumes "prepared env a w = (Inr (df1, csv_file_path, fmt_file_path, ex), w4)"
  shows "\<exists>delim cd w3 descs.
      reconciled env a w = (Inr (df1, delim, csv_file_path, fmt_file_path, ex, cd), w3) \<and>
      build_format_file env (deref w3 df1) delim cd = Inr descs \<and>
      format_file_io env = IoOk \<and>
      frames w4 = frames w3 \<and> next_temp w4 = next_temp w3 \<and> db w4 = db w3 \<and>
      files w4 = AList.update fmt_file_path (Fmt descs) (files w3) \<and>
      trace w4 = trace w3 @ [FileWritten fmt_file_path (Fmt descs)]"
  using assms
  unfolding prepared_def
  by (auto simp: bind_def lift_def write_format_file_def write_file_def log_def
      split: sum.splits prod.splits io_outcome.splits)

lemma validated_valid:
  assumes "validated env a w = (Inr (df1, delim, quotechar), w0)" and "df a < length (frames w)"
  shows "df1 < length (frames w0)"
proof (cases "index a")
  case True
  then show ?thesis using validated_InrD(5,6) [OF assms(1)] by simp
next
  case False
  then show ?thesis using validated_InrD(7) [OF assms(1)] assms(2) by simp
qed

lemma fold_update_keys:
  "fst ` set (fold (\<lambda>(k, v). AList.update k v) rows acc) = fst ` set acc \<union> fst ` set rows"
  by (induction rows arbitrary: acc) (auto simp: AList.dom_update split: prod.splits)

lemma py_dict_keys: "fst ` set (py_dict rows) = fst ` set rows"
  by (simp add: py_dict_def fold_update_keys)

lemma fold_update_map_of:
  "map_of (fold (\<lambda>(k, v). AList.update k v) rows acc) = map_of acc ++ map_of (rev rows)"
  by (induction rows arbitrary: acc) (auto simp: AList.update_conv' split: prod.splits)

lemma map_of_py_dict: "map_of (py_dict rows) = map_of (rev rows)"
  by (simp add: py_dict_def fold_update_map_of)

lemma format_fields_file_order:
  assumes "d = None \<or> d = Some []"
  shows "\<exists>descs. format_fields env delim d n k cs = Inr descs \<and>
      map file_ordinal descs = [k..<k + length cs] \<and>
      map source_column_name descs = map (\<lambda>c. str (name c)) cs \<and>
      (\<forall>x\<in>set descs. destination_ordinal x = int (file_ordinal x))"
proof (induction cs arbitrary: k)
  case Nil
  then show ?case by simp
next
  case (Cons c cs)
  obtain descs where ih: "format_fields env delim d n (Suc k) cs = Inr descs"
    "map file_ordinal descs = [Suc k..<Suc k + length cs]"
    "map source_column_name descs = map (\<lambda>c. str (name c)) cs"
    "\<forall>x\<in>set descs. destination_ordinal x = int (file_ordinal x)"
    using Cons.IH [of "Suc k"] by blast
  have "resolve_destination d k (str (name c)) = Inr (int k)"
    using assms by (auto simp: resolve_destination_def)
  then show ?case using ih by (simp add: upt_conv_Cons del: upt_Suc)
qed

lemma format_fields_lookup:
  assumes "d \<noteq> []" and "\<forall>c\<in>set cs. str (name c) \<in> fst ` set d"
  shows "\<exists>descs. format_fields env delim (Some d) n k cs = Inr descs \<and>
      map file_ordinal descs = [k..<k + length cs] \<and>
      map source_column_name descs = map (\<lambda>c. str (name c)) cs \<and>
      (\<forall>x\<in>set descs. map_of d (source_column_name x) = Some (destination_ordinal x))"
  using assms(2)
proof (induction cs arbitrary: k)
  case Nil
  then show ?case by simp
next
  case (Cons c cs)
  obtain descs where ih: "format_fields env delim (Some d) n (Suc k) cs = Inr descs"
    "map file_ordinal descs = [Suc k..<Suc k + length cs]"
    "map source_column_name descs = map (\<lambda>c. str (name c)) cs"
    "\<forall>x\<in>set descs. map_of d (source_column_name x) = Some (destination_ordinal x)"
    using Cons.IH [of "Suc k"] Cons.prems by auto
  have "str (name c) \<in> fst ` set d" using Cons.prems by simp
  then obtain v where v: "map_of d (str (name c)) = Some v"
    by (metis domD dom_map_of_conv_image_fst)
  then have "resolve_destination (Some d) k (str (name c)) = Inr v"
    using assms(1) by (simp add: resolve_destination_def)
  then show ?case using ih v by (simp add: upt_conv_Cons del: upt_Suc)
qed

lemma looked_up_db:
  assumes "looked_up env a w = (Inr (df1, delim, csv_file_path, fmt_file_path, ex), w2)"
  shows "db w2 = db w" and "ex = (map_of (db w) (schema a, table_name a) \<noteq> None)"
proof -
  obtain w1 where s: "serialized env a w = (Inr (df1, delim, csv_file_path), w1)"
    and ex: "ex = (map_of (db w1) (schema a, table_name a) \<noteq> None)" and d: "db w2 = db w1"
    using looked_up_InrD [OF assms] by blast
  obtain quotechar w0 where v: "validated env a w = (Inr (df1, delim, quotechar), w0)"
    and d1: "db w1 = db w0"
    using serialized_InrD [OF s] by blast
  have "db w0 = db w" using validated_unchanged(3) [of env a] v by (auto simp: unchanged_def dest!: keepsD)
  then show "db w2 = db w" and "ex = (map_of (db w) (schema a, table_name a) \<noteq> None)"
    using d d1 ex by simp_all
qed

section \<open>What each step may raise\<close>

lemma raisesD: "raises Q m \<Longrightarrow> m w = (Inl e, w') \<Longrightarrow> Q e"
  by (auto simp: raises_def)

lemma raises_bind:
  assumes "raises Q m" "\<And>x. raises Q (k x)"
  shows "raises Q (bind m k)"
  unfolding raises_def
proof (intro allI impI)
  fix w e w'
  assume b: "bind m k w = (Inl e, w')"
  obtain r w1 where m: "m w = (r, w1)" by (cases "m w")
  show "Q e"
  proof (cases r)
    case (Inl e1)
    then have "e1 = e" using b m by (simp add: bind_def)
    then show ?thesis using assms(1) m Inl by (auto dest: raisesD)
  next
    case (Inr x)
    then have "k x w1 = (Inl e, w')" using b m by (simp add: bind_def)
    then show ?thesis using assms(2) by (auto dest: raisesD)
  qed
qed

lemma raises_try_finally:
  assumes "raises Q body" "raises Q handler"
  shows "raises Q (try_finally body handler)"
  unfolding raises_def
proof (intro allI impI)
  fix w e w'
  assume t: "try_finally body handler w = (Inl e, w')"
  obtain r w1 where b: "body w = (r, w1)" by (cases "body w")
  obtain r2 w2 where h: "handler w1 = (r2, w2)" by (cases "handler w1")
  show "Q e"
  proof (cases r2)
    case (Inl e2)
    then have "e2 = e" using t b h by (simp add: try_finally_def)
    then show ?thesis using assms(2) h Inl by (auto dest: raisesD)
  next
    case (Inr u)
    then have "r = Inl e" using t b h by (simp add: try_finally_def)
    then show ?thesis using assms(1) b by (auto dest: raisesD)
  qed
qed

lemma raises_lift_Inr: "raises Q (lift (Inr x))"
  by (simp add: raises_def lift_def)

lemma raises_if: "raises Q m \<Longrightarrow> raises Q n \<Longrightarrow> raises Q (if b then m else n)"
  by simp

lemma format_fields_error:
  "format_fields env delim cd n k cs = Inl e \<Longrightarrow> \<exists>nm. e = KeyError nm"
  by (induction cs arbitrary: k)
    (auto simp: resolve_destination_def split: sum.splits option.splits if_splits)

lemma raises_write_format_file:
  assumes "\<And>n. Q (KeyError n)" "\<And>p. Q (OSError p)"
  shows "raises Q (write_format_file env df1 delim cd fmt_file_path)"
  unfolding raises_def
proof (intro allI impI)
  fix w e w'
  assume h: "write_format_file env df1 delim cd fmt_file_path w = (Inl e, w')"
  show "Q e"
  proof (cases "build_format_file env (deref w df1) delim cd")
    case (Inl e1)
    then have "e1 = e" using h by (simp add: write_format_file_def)
    then show ?thesis
      using Inl assms(1) format_fields_error unfolding build_format_file_def by blast
  next
    case (Inr descs)
    then have "e = OSError fmt_file_path"
      using h by (auto simp: write_format_file_def write_file_def split: io_outcome.splits)
    then show ?thesis using assms(2) by simp
  qed
qed

lemma raises_os_remove: "(\<And>p. Q (FileNotFoundError p)) \<Longrightarrow> raises Q (os_remove p)"
  by (auto simp: raises_def os_remove_def split: if_splits)

lemma raises_cleanup: "(\<And>p. Q (FileNotFoundError p)) \<Longrightarrow> raises Q (cleanup a p q)"
  unfolding cleanup_def
  by (intro raises_if raises_bind raises_lift_Inr raises_os_remove)

lemma raises_create_table:
  "Q DatabaseError \<Longrightarrow> (\<And>s. Q (ValueError s)) \<Longrightarrow>
   raises Q (priv_create_table env sch tbl r ife dty ks)"
  by (auto simp: raises_def priv_create_table_def SQLTable_create_def split: if_splits)

lemma raises_bcp: "Q BcpError \<Longrightarrow> raises Q (bcp env c)"
  by (auto simp: raises_def bcp_def split: if_splits)

lemma raises_apply_policy_append:
  assumes "if_exists a = ''append''" "Q DatabaseError" "\<And>s. Q (ValueError s)"
  shows "raises Q (apply_policy env a r ex)"
  unfolding apply_policy_def using assms(1)
  by (simp add: raises_lift_Inr raises_create_table assms(2,3))

lemma append_raises_no_value_error:
  assumes "if_exists a = ''append''"
  shows "raises (\<lambda>e. \<forall>m. e \<noteq> BCPandasValueError m)
     (bind (write_format_file env df1 delim cd fmt_file_path)
        (\<lambda>_. try_finally (load env a df1 ex csv_file_path fmt_file_path)
               (cleanup a csv_file_path fmt_file_path)))"
  unfolding load_def
  by (intro raises_bind raises_try_finally raises_write_format_file raises_cleanup
      raises_apply_policy_append raises_bcp assms) simp_all


lemma to_sql_after_reconciled:
  assumes "\<not> is_empty (deref w (df a))"
    and "reconciled env a w = (Inr (df1, delim, csv_file_path, fmt_file_path, ex, cd), w3)"
  shows "to_sql env a w =
    bind (write_format_file env df1 delim cd fmt_file_path)
      (\<lambda>_. try_finally (load env a df1 ex csv_file_path fmt_file_path)
             (cleanup a csv_file_path fmt_file_path)) w3"
proof -
  have "prepared env a w =
      bind (write_format_file env df1 delim cd fmt_file_path)
        (\<lambda>_. lift (Inr (df1, csv_file_path, fmt_file_path, ex))) w3"
    using assms(2) by (simp add: prepared_def bind_def)
  then show ?thesis
    using assms(1)
    by (cases "write_format_file env df1 delim cd fmt_file_path w3")
      (auto simp: to_sql_def bind_def lift_def split: sum.splits)
qed

lemma to_sql_after_prepared:
  assumes "\<not> is_empty (deref w (df a))"
    and "prepared env a w = (Inr (df1, csv_file_path, fmt_file_path, ex), w4)"
  shows "to_sql env a w =
    try_finally (load env a df1 ex csv_file_path fmt_file_path)
      (cleanup a csv_file_path fmt_file_path) w4"
  using assms by (simp add: to_sql_def bind_def)

section \<open>The state at the \<^verbatim>\<open>try\<close>\<close>

lemma prepared_summary:
  assumes "prepared env a w = (Inr (df1, csv_file_path, fmt_file_path, ex), w4)"
  shows "db w4 = db w"
    and "ex = (map_of (db w) (schema a, table_name a) \<noteq> None)"
    and "csv_file_path \<noteq> fmt_file_path"
    and "map_of (files w4) csv_file_path \<noteq> None"
    and "map_of (files w4) fmt_file_path \<noteq> None"
    and "\<exists>evs. trace w4 = trace w @ evs \<and> list_all prepares evs"
proof -
  obtain delim cd w3 descs where
    r: "reconciled env a w = (Inr (df1, delim, csv_file_path, fmt_file_path, ex, cd), w3)"
    and f4: "files w4 = AList.update fmt_file_path (Fmt descs) (files w3)"
    using prepared_InrD [OF assms] by blast
  obtain w2 where
    l: "looked_up env a w = (Inr (df1, delim, csv_file_path, fmt_file_path, ex), w2)"
    and rc: "reconcile env a df1 ex w2 = (Inr cd, w3)"
    using reconciled_InrD [OF r] by blast
  have f3: "files w3 = files w2" using reconcile_InrD [OF rc] by simp
  obtain w1 where s: "serialized env a w = (Inr (df1, delim, csv_file_path), w1)"
    and fmt: "fmt_file_path = TempFile (next_temp w1)" and f2: "files w2 = files w1"
    using looked_up_InrD [OF l] by blast
  obtain quotechar w0 g where "validated env a w = (Inr (df1, delim, quotechar), w0)"
    and csv: "csv_file_path = TempFile (next_temp w0)"
    and n1: "next_temp w1 = Suc (next_temp w0)"
    and f1: "files w1 = AList.update csv_file_path
        (Csv (csv_records g) delim (NEWLINE env)) (files w0)"
    using serialized_InrD [OF s] by blast
  show "db w4 = db w"
    using prepared_unchanged_db [of env a] assms by (auto simp: unchanged_def dest!: keepsD)
  show "ex = (map_of (db w) (schema a, table_name a) \<noteq> None)"
    using looked_up_db(2) [OF l] .
  show ne: "csv_file_path \<noteq> fmt_file_path" using csv fmt n1 by simp
  show "map_of (files w4) csv_file_path \<noteq> None"
    using ne by (simp add: f4 f3 f2 f1 AList.update_conv')
  show "map_of (files w4) fmt_file_path \<noteq> None"
    by (simp add: f4 AList.update_conv')
  have "grows prepares w w4"
    using grows_prepared [of prepares env a] assms by (auto dest!: keepsD)
  then show "\<exists>evs. trace w4 = trace w @ evs \<and> list_all prepares evs"
    by (simp add: grows_def)
qed

lemma cleanup_ok:
  assumes "p \<noteq> q" "map_of (files w) p \<noteq> None" "map_of (files w) q \<noteq> None"
  shows "\<exists>w'. cleanup a p q w = (Inr (), w') \<and> db w' = db w \<and>
      trace w' = trace w @ (if debug a then [] else [FileRemoved p, FileRemoved q])"
  using assms
  by (auto simp: cleanup_def bind_def lift_def os_remove_def log_def AList.delete_conv')

lemma cleanup_trace:
  "\<exists>w' r evs. cleanup a p q w = (r, w') \<and> db w' = db w \<and> trace w' = trace w @ evs \<and>
      set evs \<subseteq> {FileRemoved p, FileRemoved q}"
  by (auto simp: cleanup_def bind_def lift_def os_remove_def log_def)


lemma emitted_eq:
  "trace (snd (to_sql env a w)) = trace w @ evs \<Longrightarrow> emitted env a w = evs"
  by (simp add: emitted_def)

lemma prepares_no_ddl:
  "list_all prepares evs \<Longrightarrow> ev \<in> set evs \<Longrightarrow>
   (\<forall>s t. ev \<noteq> TableDropped s t) \<and> (\<forall>s t cs. ev \<noteq> TableCreated s t cs) \<and> (\<forall>b. ev \<noteq> BcpInvoked b)"
  by (auto simp: list_all_iff)

lemma grows_load:
  assumes "P (TableDropped (schema a) (table_name a))"
    "\<And>cs. P (TableCreated (schema a) (table_name a) cs)"
    "\<And>c. bcp_error_file_path c =
        py_format (error_path a) @ ''/'' @ table_name a @ ''_bcp_error.txt'' \<Longrightarrow> P (BcpInvoked c)"
  shows "keeps (grows P) (load env a r ex p q)"
  unfolding load_def
  by (intro keeps_bind transp_grows grows_apply_policy grows_bcp assms) simp_all

lemma grows_to_sql:
  assumes "\<And>p c. P (FileWritten p c)" "\<And>p. P (FileRemoved p)"
    "\<And>t s n. P (ExistsQueried t s n)" "\<And>s n. P (ColumnsQueried s n)"
    "P (TableDropped (schema a) (table_name a))"
    "\<And>cs. P (TableCreated (schema a) (table_name a) cs)"
    "\<And>c. bcp_error_file_path c =
        py_format (error_path a) @ ''/'' @ table_name a @ ''_bcp_error.txt'' \<Longrightarrow> P (BcpInvoked c)"
  shows "grows P w (snd (to_sql env a w))"
proof (cases "is_empty (deref w (df a))")
  case True
  then show ?thesis using reflp_grows [of P] by (simp add: to_sql_def reflpD)
next
  case False
  have "keeps (grows P)
      (bind (prepared env a)
        (\<lambda>(df1, csv_file_path, fmt_file_path, sql_item_exists).
           try_finally (load env a df1 sql_item_exists csv_file_path fmt_file_path)
             (cleanup a csv_file_path fmt_file_path)))"
    by (intro keeps_bind keeps_case_prod keeps_try_finally transp_grows grows_prepared
        grows_load grows_cleanup assms)
  then show ?thesis using False by (simp add: to_sql_def keeps_def)
qed

lemma grows_emitted:
  assumes "grows P w (snd (to_sql env a w))"
  shows "list_all P (emitted env a w)"
  using assms by (auto simp: grows_def emitted_def)


lemma reconciled_format_file:
  assumes "reconciled env a w = (Inr (df1, delim, csv_file_path, fmt_file_path, ex, cd), w3)"
  shows "\<exists>descs.
      build_format_file env (deref w3 df1) delim cd = Inr descs \<and>
      write_format_file env df1 delim cd fmt_file_path w3 =
        write_file (format_file_io env) fmt_file_path (Fmt descs) w3 \<and>
      map file_ordinal descs = [1..<Suc (length (columns (deref w3 df1)))] \<and>
      map source_column_name descs = map (\<lambda>c. str (name c)) (columns (deref w3 df1)) \<and>
      (case map_of (db w) (schema a, table_name a) of
         None \<Rightarrow> (\<forall>x\<in>set descs. destination_ordinal x = int (file_ordinal x))
       | Some rows \<Rightarrow>
           if if_exists a = ''append''
           then (\<forall>x\<in>set descs. map_of (py_dict rows) (source_column_name x) = Some (destination_ordinal x))
           else (\<forall>x\<in>set descs. destination_ordinal x = int (file_ordinal x)))"
proof -
  obtain w2 where l: "looked_up env a w = (Inr (df1, delim, csv_file_path, fmt_file_path, ex), w2)"
    and r: "reconcile env a df1 ex w2 = (Inr cd, w3)"
    using reconciled_InrD [OF assms] by blast
  have db2: "db w2 = db w" and ex: "ex = (map_of (db w) (schema a, table_name a) \<noteq> None)"
    using looked_up_db [OF l] by simp_all
  note rc = reconcile_InrD [OF r]
  have fr: "deref w3 df1 = deref w2 df1" using rc by (simp add: deref_def)
  let ?cs = "columns (deref w3 df1)"
  have key: "\<exists>descs. format_fields env delim cd (length ?cs) 1 ?cs = Inr descs \<and>
      map file_ordinal descs = [1..<1 + length ?cs] \<and>
      map source_column_name descs = map (\<lambda>c. str (name c)) ?cs \<and>
      (case map_of (db w) (schema a, table_name a) of
         None \<Rightarrow> (\<forall>x\<in>set descs. destination_ordinal x = int (file_ordinal x))
       | Some rows \<Rightarrow>
           if if_exists a = ''append''
           then (\<forall>x\<in>set descs. map_of (py_dict rows) (source_column_name x) = Some (destination_ordinal x))
           else (\<forall>x\<in>set descs. destination_ordinal x = int (file_ordinal x)))"
  proof (cases "if_exists a = ''append''")
    case False
    then have "cd = None" using rc by simp
    then show ?thesis
      using format_fields_file_order [of cd env delim "length ?cs" 1 ?cs] False
      by (auto split: option.splits)
  next
    case True
    show ?thesis
    proof (cases "map_of (db w) (schema a, table_name a)")
      case None
      then have "cd = Some []" using rc True db2 by (simp add: py_dict_def)
      then show ?thesis
        using format_fields_file_order [of cd env delim "length ?cs" 1 ?cs] None by auto
    next
      case (Some rows)
      then have cd: "cd = Some (py_dict rows)" using rc True db2 by simp
      have "ex" using ex Some by simp
      then have "extra_cols (deref w2 df1) (py_dict rows) = []" using rc True cd db2 Some by simp
      then have all: "\<forall>c\<in>set ?cs. str (name c) \<in> fst ` set (py_dict rows)"
        using fr by (auto simp: extra_cols_def filter_empty_conv)
      show ?thesis
      proof (cases "py_dict rows = []")
        case e: True
        then have "?cs = []" using all by (cases ?cs) auto
        then show ?thesis using Some True by simp
      next
        case False
        then show ?thesis
          using format_fields_lookup [OF False all, of env delim "length ?cs" 1] Some True cd
          by auto
      qed
    qed
  qed
  then obtain descs where "format_fields env delim cd (length ?cs) 1 ?cs = Inr descs"
    and "map file_ordinal descs = [1..<1 + length ?cs]"
    and "map source_column_name descs = map (\<lambda>c. str (name c)) ?cs"
    and "case map_of (db w) (schema a, table_name a) of
         None \<Rightarrow> (\<forall>x\<in>set descs. destination_ordinal x = int (file_ordinal x))
       | Some rows \<Rightarrow>
           if if_exists a = ''append''
           then (\<forall>x\<in>set descs. map_of (py_dict rows) (source_column_name x) = Some (destination_ordinal x))
           else (\<forall>x\<in>set descs. destination_ordinal x = int (file_ordinal x))"
    by blast
  then show ?thesis
    by (intro exI [of _ descs]) (simp add: build_format_file_def write_format_file_def)
qed

lemma grows_after_prepared:
  "keeps (grows (\<lambda>_. True))
     (try_finally (load env a df1 ex csv_file_path fmt_file_path)
        (cleanup a csv_file_path fmt_file_path))"
  by (intro keeps_try_finally transp_grows grows_load grows_cleanup) simp_all

section \<open>Validation\<close>

lemmas example_defs =
  example_env_def example_frame_def no_rows_frame_def twice_id_frame_def example_world_def
  example_args_def bool_null_frame_def nullable_boolean_frame_def bool_null_world_def

text \<open>The definitions of the model, for evaluating it on the example.\<close>

lemmas model_defs =
  to_sql_def prepared_def reconciled_def looked_up_def serialized_def validated_def
  bind_def lift_def is_empty_def shape_def deref_def validate_def has_duplicates_def
  materialize_def copy_def reset_index_def reset_index_frame_def select_def
  check_batch_size_def get_temp_file_def replace_def alloc_def replace_frame_def
  replace_column_def convert_column_def float_text_def to_csv_def
  write_file_def log_def csv_records_def priv_sql_item_exists_def reconcile_def read_columns_def
  py_dict_def extra_cols_def write_format_file_def build_format_file_def
  resolve_destination_def try_finally_def load_def apply_policy_def cleanup_def os_remove_def
  priv_create_table_def SQLTable_create_def execute_create_def drop_table_def table_columns_def
  bcp_def py_format_def str_int_def str_nat.simps emitted_def

text \<open>
  C4. A source table with zero rows or zero columns: \<^verbatim>\<open>to_sql\<close> returns at once, and the
  world is as it was: no scratch file, no catalog query, no table created or dropped, no
  external process.
\<close>

theorem empty_is_noop:
  assumes "fst (shape (deref w (df a))) = 0 \<or> snd (shape (deref w (df a))) = 0"
  shows "to_sql env a w = (Inr (), w) \<and> emitted env a w = []"
  using assms by (simp add: to_sql_def emitted_def is_empty_def)

theorem empty_is_noop_witness:
  "fst (shape (deref example_world (df (example_args\<lparr>df := 1\<rparr>)))) = 0
   \<and> to_sql example_env (example_args\<lparr>df := 1\<rparr>) example_world = (Inr (), example_world)
   \<and> emitted example_env (example_args\<lparr>df := 1\<rparr>) example_world = []"
proof -
  have h: "fst (shape (deref example_world (df (example_args\<lparr>df := 1\<rparr>)))) = 0"
    by (simp add: example_defs deref_def shape_def)
  then show ?thesis
    using empty_is_noop [of example_world "example_args\<lparr>df := 1\<rparr>" example_env] by simp
qed

text \<open>
  C7. A non-empty source table with two columns of the same name: \<^verbatim>\<open>to_sql\<close> raises, and
  the world is as it was (no file written, no catalog query). The error is the
  \<^verbatim>\<open>BCPandasValueError\<close> of line 254, unless one of the assertions of lines 250 and 251
  on \<open>sql_type\<close> and \<open>if_exists\<close> fails first.
\<close>

theorem duplicate_names_rejected:
  assumes "\<not> is_empty (deref w (df a))"
    and "\<not> distinct (map name (columns (deref w (df a))))"
  shows "to_sql env a w =
    (Inl (if sql_type a \<noteq> TABLE env then AssertionError ''only supporting table, not view, for now''
          else if if_exists a \<notin> set (IF_EXISTS_OPTIONS env) then AssertionError []
          else BCPandasValueError (DuplicateNames (duplicated (deref w (df a))))), w)"
  using assms
  by (simp add: to_sql_def prepared_def reconciled_def looked_up_def serialized_def validated_def
      validate_def has_duplicates_def bind_def lift_def)

theorem duplicate_names_rejected_witness:
  "\<not> is_empty (deref example_world (df (example_args\<lparr>df := 2\<rparr>)))
   \<and> \<not> distinct (map name (columns (deref example_world (df (example_args\<lparr>df := 2\<rparr>)))))
   \<and> to_sql example_env (example_args\<lparr>df := 2\<rparr>) example_world =
       (Inl (BCPandasValueError (DuplicateNames [StrLabel ''id'', StrLabel ''id''])), example_world)"
proof -
  have h: "\<not> is_empty (deref example_world (df (example_args\<lparr>df := 2\<rparr>)))"
    "\<not> distinct (map name (columns (deref example_world (df (example_args\<lparr>df := 2\<rparr>)))))"
    by (simp_all add: example_defs deref_def shape_def is_empty_def)
  show ?thesis
    using h duplicate_names_rejected [OF h, of example_env]
    by (simp add: example_defs deref_def duplicated_def)
qed

text \<open>
  C6. A non-empty source table and a batch size that is zero or greater than the number
  of rows: \<^verbatim>\<open>to_sql\<close> raises, and the scratch directory, the counter of temporary names,
  the catalog and the trace are as they were (no scratch file, no external process).
  The error is the \<^verbatim>\<open>BCPandasValueError\<close> of line 268 or 270 whenever the steps before
  line 266 (assertions, duplicate names, index, delimiter and quote character) raise
  nothing.
\<close>

theorem batch_size_rejected:
  assumes "\<not> is_empty (deref w (df a))"
    and "batch_size a = Some b"
    and "b = 0 \<or> int (fst (shape (deref w (df a)))) < b"
  shows "\<exists>e w'. to_sql env a w = (Inl e, w') \<and>
           files w' = files w \<and> next_temp w' = next_temp w \<and> db w' = db w \<and> trace w' = trace w \<and>
           (\<forall>x w0. validated env a w = (Inr x, w0) \<longrightarrow>
              e = BCPandasValueError (if b = 0 then BatchSizeZero else BatchSizeTooLarge))"
proof -
  obtain r w0 where v: "validated env a w = (r, w0)" by (cases "validated env a w")
  have same: "files w0 = files w" "next_temp w0 = next_temp w" "db w0 = db w" "trace w0 = trace w"
    using validated_unchanged [of env a] v by (auto simp: unchanged_def dest!: keepsD)
  show ?thesis
  proof (cases r)
    case (Inl e)
    then have "to_sql env a w = (Inl e, w0)"
      using v assms(1)
      by (simp add: to_sql_def prepared_def reconciled_def looked_up_def serialized_def bind_def)
    then show ?thesis using same v Inl by simp
  next
    case (Inr x)
    obtain df1 delim quotechar where x: "x = (df1, delim, quotechar)" by (cases x)
    have rows: "fst (shape (deref w0 df1)) = fst (shape (deref w (df a)))"
      using v Inr x by (simp add: validated_rows)
    have "check_batch_size (batch_size a) (deref w0 df1) =
        Inl (BCPandasValueError (if b = 0 then BatchSizeZero else BatchSizeTooLarge))"
      using assms(2,3) rows by (auto simp: check_batch_size_def)
    then have "to_sql env a w =
        (Inl (BCPandasValueError (if b = 0 then BatchSizeZero else BatchSizeTooLarge)), w0)"
      using v Inr x assms(1)
      by (simp add: to_sql_def prepared_def reconciled_def looked_up_def serialized_def bind_def
          lift_def)
    then show ?thesis using same v Inr by simp
  qed
qed

theorem batch_size_rejected_witness:
  "\<not> is_empty (deref example_world (df (example_args\<lparr>batch_size := Some 0\<rparr>)))
   \<and> batch_size (example_args\<lparr>batch_size := Some 0\<rparr>) = Some 0
   \<and> to_sql example_env (example_args\<lparr>batch_size := Some 0\<rparr>) example_world =
       (Inl (BCPandasValueError BatchSizeZero), example_world)
   \<and> batch_size (example_args\<lparr>batch_size := Some 4\<rparr>) = Some 4
   \<and> int (fst (shape (deref example_world (df (example_args\<lparr>batch_size := Some 4\<rparr>))))) < 4
   \<and> to_sql example_env (example_args\<lparr>batch_size := Some 4\<rparr>) example_world =
       (Inl (BCPandasValueError BatchSizeTooLarge), example_world)"
  using batch_size_rejected [of example_world "example_args\<lparr>batch_size := Some 0\<rparr>" 0 example_env]
    batch_size_rejected [of example_world "example_args\<lparr>batch_size := Some 4\<rparr>" 4 example_env]
  by (simp add: model_defs example_defs)


section \<open>The flat file\<close>

text \<open>
  What the flat file holds when it has been written (line 288): one record per row and one
  field per column of the local \<open>df\<close>; the field of a null cell is empty, and in a column of
  dtype \<^verbatim>\<open>bool\<close> the field of \<^verbatim>\<open>True\<close> is \<^verbatim>\<open>1\<close> and the field of \<^verbatim>\<open>False\<close> is \<^verbatim>\<open>0\<close>.
\<close>

lemma replace_columns_nth:
  "replace_columns env cs = Inr cs' \<Longrightarrow>
   length cs' = length cs \<and> (\<forall>j<length cs. replace_column env (cs ! j) = Inr (cs' ! j))"
proof (induction cs arbitrary: cs')
  case Nil
  then show ?case by simp
next
  case (Cons c cs)
  then obtain c' cs1 where c: "replace_column env c = Inr c'"
    and cs: "replace_columns env cs = Inr cs1" and e: "cs' = c' # cs1"
    by (auto split: sum.splits)
  show ?case using Cons.IH [OF cs] c e by (auto simp: nth_Cons split: nat.splits)
qed

lemma replace_column_cells:
  assumes "replace_column env c = Inr c'"
  shows "length (cells c') = length (cells c)"
    and "i < length (cells c) \<Longrightarrow> cells c ! i = NullCell \<Longrightarrow> cells c' ! i = NullCell"
    and "i < length (cells c) \<Longrightarrow> dtype c = BoolDtype \<Longrightarrow> cells c ! i = BoolCell b \<Longrightarrow>
         cells c' ! i = IntCell (if b then 1 else 0)"
  using assms
  by (cases "dtype c"; auto simp: replace_column_def convert_column_def)+

lemma str_int_bit: "str_int 1 = ''1''" "str_int 0 = ''0''"
  by (simp_all add: str_int_def str_nat.simps)

lemma flat_file_fields:
  assumes "serialized env a w = (Inr (df1, delim, csv_file_path), w1)"
    and "df a < length (frames w)"
  shows "\<exists>recs.
      map_of (files w1) csv_file_path = Some (Csv recs delim (NEWLINE env)) \<and>
      length recs = fst (shape (deref w1 df1)) \<and>
      (\<forall>i < fst (shape (deref w1 df1)). \<forall>j < snd (shape (deref w1 df1)).
         length (recs ! i) = snd (shape (deref w1 df1)) \<and>
         (i < length (cells (columns (deref w1 df1) ! j)) \<longrightarrow>
            (cells (columns (deref w1 df1) ! j) ! i = NullCell \<longrightarrow> recs ! i ! j = []) \<and>
            (dtype (columns (deref w1 df1) ! j) = BoolDtype \<longrightarrow>
               (cells (columns (deref w1 df1) ! j) ! i = BoolCell True \<longrightarrow> recs ! i ! j = ''1'') \<and>
               (cells (columns (deref w1 df1) ! j) ! i = BoolCell False \<longrightarrow> recs ! i ! j = ''0''))))"
proof -
  obtain quotechar w0 g where v: "validated env a w = (Inr (df1, delim, quotechar), w0)"
    and g: "replace_frame env (deref w0 df1) = Inr g"
    and fr: "frames w1 = frames w0 @ [g]"
    and fi: "files w1 = AList.update csv_file_path (Csv (csv_records g) delim (NEWLINE env)) (files w0)"
    using serialized_InrD [OF assms(1)] by blast
  have "df1 < length (frames w0)" using v assms(2) by (rule validated_valid)
  then have same: "deref w1 df1 = deref w0 df1" using fr by (simp add: deref_def nth_append)
  define f where "f = deref w0 df1"
  obtain cs where cs: "replace_columns env (columns f) = Inr cs" and gf: "g = f\<lparr>columns := cs\<rparr>"
    using g by (auto simp: replace_frame_def f_def split: sum.splits)
  note rn = replace_columns_nth [OF cs]
  define recs where "recs = csv_records g"
  have 1: "map_of (files w1) csv_file_path = Some (Csv recs delim (NEWLINE env))"
    using fi by (simp add: recs_def AList.update_conv')
  have 2: "length recs = fst (shape f)"
    by (simp add: recs_def csv_records_def gf shape_def)
  have 3: "length (recs ! i) = snd (shape f)" if "i < fst (shape f)" for i
    using that rn by (simp add: recs_def csv_records_def gf shape_def)
  have 4: "recs ! i ! j = field_text (cells (cs ! j) ! i)"
    if "i < fst (shape f)" "j < snd (shape f)" for i j
    using that rn by (simp add: recs_def csv_records_def gf shape_def)
  have 5: "replace_column env (columns f ! j) = Inr (cs ! j)" if "j < snd (shape f)" for j
    using that rn by (simp add: shape_def)
  show ?thesis
    unfolding same f_def [symmetric]
  proof (intro exI [of _ recs] conjI allI impI)
    show "map_of (files w1) csv_file_path = Some (Csv recs delim (NEWLINE env))" by (rule 1)
    show "length recs = fst (shape f)" by (rule 2)
  next
    fix i j assume "i < fst (shape f)" "j < snd (shape f)"
    then show "length (recs ! i) = snd (shape f)" by (simp add: 3)
  next
    fix i j
    assume ij: "i < fst (shape f)" "j < snd (shape f)" "i < length (cells (columns f ! j))"
    assume "cells (columns f ! j) ! i = NullCell"
    then show "recs ! i ! j = []"
      using replace_column_cells(2) [OF 5 [OF ij(2)] ij(3)] 4 [OF ij(1,2)] by simp
  next
    fix i j
    assume ij: "i < fst (shape f)" "j < snd (shape f)" "i < length (cells (columns f ! j))"
      and b: "dtype (columns f ! j) = BoolDtype"
    assume "cells (columns f ! j) ! i = BoolCell True"
    then show "recs ! i ! j = ''1''"
      using replace_column_cells(3) [OF 5 [OF ij(2)] ij(3) b, of True] 4 [OF ij(1,2)]
      by (simp add: str_int_bit)
  next
    fix i j
    assume ij: "i < fst (shape f)" "j < snd (shape f)" "i < length (cells (columns f ! j))"
      and b: "dtype (columns f ! j) = BoolDtype"
    assume "cells (columns f ! j) ! i = BoolCell False"
    then show "recs ! i ! j = ''0''"
      using replace_column_cells(3) [OF 5 [OF ij(2)] ij(3) b, of False] 4 [OF ij(1,2)]
      by (simp add: str_int_bit)
  qed
qed

text \<open>
  C9 says that in the flat file every \<^verbatim>\<open>True\<close> is written as 1, every \<^verbatim>\<open>False\<close> as 0 and
  every null as an empty field; the comment of line 276 says the same of the booleans. It
  holds of the nulls, and of the booleans of a \<^verbatim>\<open>bool\<close> column (\<open>flat_file_fields\<close>).
  A column of booleans beside a null has the dtype \<^verbatim>\<open>object\<close>: after the replacement of
  line 277 pandas infers \<^verbatim>\<open>float64\<close> for it, and \<^verbatim>\<open>True\<close> is written as \<^verbatim>\<open>1.0\<close>,
  \<^verbatim>\<open>False\<close> as \<^verbatim>\<open>0.0\<close>. With the nullable dtype \<^verbatim>\<open>boolean\<close> the replacement raises
  TypeError, and nothing is written.
\<close>

theorem booleans_beside_nulls_written_as_floats:
  "map dtype (columns (deref bool_null_world (df example_args))) = [Int64Dtype, ObjectDtype]
   \<and> map cells (columns (deref bool_null_world (df example_args))) =
       [[IntCell 7, IntCell 8, IntCell 9], [BoolCell True, NullCell, BoolCell False]]
   \<and> hd (emitted example_env example_args bool_null_world) =
       FileWritten (TempFile 0)
         (Csv [[''7'', ''1.0''], [''8'', []], [''9'', ''0.0'']] CHR '','' [CHR 0x0A])
   \<and> fst (to_sql example_env example_args bool_null_world) = Inr ()
   \<and> map dtype (columns (deref bool_null_world (df (example_args\<lparr>df := 1\<rparr>)))) =
       [Int64Dtype, BooleanDtype]
   \<and> fst (to_sql example_env (example_args\<lparr>df := 1\<rparr>) bool_null_world) =
       Inl (TypeError ''Need to pass bool-like values'')
   \<and> emitted example_env (example_args\<lparr>df := 1\<rparr>) bool_null_world = []"
  by (simp add: model_defs example_defs upt_rec)


section \<open>The format file\<close>

text \<open>
  C2. When nothing was raised before the \<^verbatim>\<open>try\<close> (line 327), the format file that
  \<^verbatim>\<open>to_sql\<close> has written at \<open>fmt_file_path\<close> (the last event so far, and an event of the
  invocation) has one record per column of the local \<open>df\<close>, with the file ordinals
  1, 2, ... in order. Under append against a table that exists, the destination ordinal of
  each record is the value of the column's name in the dict of the catalog's rows
  (\<open>py_dict rows\<close>, which maps a name to the ordinal of the last row with that name:
  \<open>map_of_py_dict\<close>); under another policy, and when the table does not exist, it is the
  file ordinal.
\<close>

theorem destination_ordinals:
  assumes "prepared env a w = (Inr (df1, csv_file_path, fmt_file_path, ex), w4)"
  shows "\<exists>descs evs.
      map_of (files w4) fmt_file_path = Some (Fmt descs) \<and>
      trace w4 = trace w @ evs @ [FileWritten fmt_file_path (Fmt descs)] \<and>
      (\<not> is_empty (deref w (df a)) \<longrightarrow>
         FileWritten fmt_file_path (Fmt descs) \<in> set (emitted env a w)) \<and>
      map file_ordinal descs = [1..<Suc (length (columns (deref w4 df1)))] \<and>
      map source_column_name descs = map (\<lambda>c. str (name c)) (columns (deref w4 df1)) \<and>
      (case map_of (db w) (schema a, table_name a) of
         None \<Rightarrow> (\<forall>x\<in>set descs. destination_ordinal x = int (file_ordinal x))
       | Some rows \<Rightarrow>
           if if_exists a = ''append''
           then (\<forall>x\<in>set descs. map_of (py_dict rows) (source_column_name x) = Some (destination_ordinal x))
           else (\<forall>x\<in>set descs. destination_ordinal x = int (file_ordinal x)))"
proof -
  obtain delim cd w3 descs where
    r: "reconciled env a w = (Inr (df1, delim, csv_file_path, fmt_file_path, ex, cd), w3)"
    and b: "build_format_file env (deref w3 df1) delim cd = Inr descs"
    and f4: "files w4 = AList.update fmt_file_path (Fmt descs) (files w3)"
    and fr: "frames w4 = frames w3"
    and t4: "trace w4 = trace w3 @ [FileWritten fmt_file_path (Fmt descs)]"
    using prepared_InrD [OF assms] by blast
  have d: "deref w4 df1 = deref w3 df1" using fr by (simp add: deref_def)
  have "grows (\<lambda>_. True) w w3"
    using grows_reconciled [of "\<lambda>_. True" env a] r by (auto dest!: keepsD)
  then obtain evs where t3: "trace w3 = trace w @ evs" by (auto simp: grows_def)
  have 1: "map_of (files w4) fmt_file_path = Some (Fmt descs)"
    by (simp add: f4 AList.update_conv')
  have 2: "trace w4 = trace w @ evs @ [FileWritten fmt_file_path (Fmt descs)]"
    using t4 t3 by simp
  have 3: "FileWritten fmt_file_path (Fmt descs) \<in> set (emitted env a w)"
    if ne: "\<not> is_empty (deref w (df a))"
  proof -
    have "grows (\<lambda>_. True) w4 (snd (to_sql env a w))"
      using grows_after_prepared [of env a df1 ex csv_file_path fmt_file_path]
      unfolding to_sql_after_prepared [OF ne assms] by (simp add: keeps_def)
    then obtain more where "trace (snd (to_sql env a w)) = trace w4 @ more"
      by (auto simp: grows_def)
    then have "emitted env a w = evs @ [FileWritten fmt_file_path (Fmt descs)] @ more"
      using 2 by (intro emitted_eq) simp
    then show ?thesis by simp
  qed
  show ?thesis
    using reconciled_format_file [OF r] b 1 2 3 unfolding d
    by (intro exI [of _ descs] exI [of _ evs]) simp
qed

lemma example_prepared:
  "fst (prepared example_env example_args example_world) = Inr (0, TempFile 0, TempFile 1, True)"
  "map_of (files (snd (prepared example_env example_args example_world))) (TempFile 1) =
     Some (Fmt
       [\<lparr>file_ordinal = 1, destination_ordinal = 3, terminator_bytes = '','',
         type_tag = ''SQLCHAR'', source_column_name = ''id''\<rparr>,
        \<lparr>file_ordinal = 2, destination_ordinal = 1, terminator_bytes = [CHR 0x0A],
         type_tag = ''SQLCHAR'', source_column_name = ''ok''\<rparr>])"
  "if_exists example_args = ''append''"
  "map_of (db example_world) (schema example_args, table_name example_args) =
     Some [(''ok'', 1), (''extra'', 2), (''id'', 3)]"
  by (simp_all add: model_defs example_defs upt_rec)

lemma example_prepared_fail:
  "fst (prepared example_env (example_args\<lparr>if_exists := ''fail''\<rparr>) example_world) =
     Inr (0, TempFile 0, TempFile 1, True)"
  "map_of (files (snd (prepared example_env (example_args\<lparr>if_exists := ''fail''\<rparr>) example_world)))
       (TempFile 1) =
     Some (Fmt
       [\<lparr>file_ordinal = 1, destination_ordinal = 1, terminator_bytes = '','',
         type_tag = ''SQLCHAR'', source_column_name = ''id''\<rparr>,
        \<lparr>file_ordinal = 2, destination_ordinal = 2, terminator_bytes = [CHR 0x0A],
         type_tag = ''SQLCHAR'', source_column_name = ''ok''\<rparr>])"
  by (simp_all add: model_defs example_defs upt_rec)

lemma example_prepared_new:
  "fst (prepared example_env (example_args\<lparr>table_name := ''u''\<rparr>) example_world) =
     Inr (0, TempFile 0, TempFile 1, False)"
  "map_of (files (snd (prepared example_env (example_args\<lparr>table_name := ''u''\<rparr>) example_world)))
       (TempFile 1) =
     Some (Fmt
       [\<lparr>file_ordinal = 1, destination_ordinal = 1, terminator_bytes = '','',
         type_tag = ''SQLCHAR'', source_column_name = ''id''\<rparr>,
        \<lparr>file_ordinal = 2, destination_ordinal = 2, terminator_bytes = [CHR 0x0A],
         type_tag = ''SQLCHAR'', source_column_name = ''ok''\<rparr>])"
  "map_of (db example_world) (schema (example_args\<lparr>table_name := ''u''\<rparr>),
       table_name (example_args\<lparr>table_name := ''u''\<rparr>)) = None"
  by (simp_all add: model_defs example_defs upt_rec)

theorem destination_ordinals_witness:
  "fst (prepared example_env example_args example_world) = Inr (0, TempFile 0, TempFile 1, True)
   \<and> if_exists example_args = ''append''
   \<and> map_of (db example_world) (schema example_args, table_name example_args) =
       Some [(''ok'', 1), (''extra'', 2), (''id'', 3)]
   \<and> map_of (files (snd (prepared example_env example_args example_world))) (TempFile 1) =
       Some (Fmt
         [\<lparr>file_ordinal = 1, destination_ordinal = 3, terminator_bytes = '','',
           type_tag = ''SQLCHAR'', source_column_name = ''id''\<rparr>,
          \<lparr>file_ordinal = 2, destination_ordinal = 1, terminator_bytes = [CHR 0x0A],
           type_tag = ''SQLCHAR'', source_column_name = ''ok''\<rparr>])
   \<and> fst (prepared example_env (example_args\<lparr>if_exists := ''fail''\<rparr>) example_world) =
       Inr (0, TempFile 0, TempFile 1, True)
   \<and> map_of (files (snd (prepared example_env (example_args\<lparr>if_exists := ''fail''\<rparr>) example_world)))
         (TempFile 1) =
       Some (Fmt
         [\<lparr>file_ordinal = 1, destination_ordinal = 1, terminator_bytes = '','',
           type_tag = ''SQLCHAR'', source_column_name = ''id''\<rparr>,
          \<lparr>file_ordinal = 2, destination_ordinal = 2, terminator_bytes = [CHR 0x0A],
           type_tag = ''SQLCHAR'', source_column_name = ''ok''\<rparr>])
   \<and> fst (prepared example_env (example_args\<lparr>table_name := ''u''\<rparr>) example_world) =
       Inr (0, TempFile 0, TempFile 1, False)
   \<and> map_of (db example_world) (schema (example_args\<lparr>table_name := ''u''\<rparr>),
         table_name (example_args\<lparr>table_name := ''u''\<rparr>)) = None
   \<and> map_of (files (snd (prepared example_env (example_args\<lparr>table_name := ''u''\<rparr>) example_world)))
         (TempFile 1) =
       Some (Fmt
         [\<lparr>file_ordinal = 1, destination_ordinal = 1, terminator_bytes = '','',
           type_tag = ''SQLCHAR'', source_column_name = ''id''\<rparr>,
          \<lparr>file_ordinal = 2, destination_ordinal = 2, terminator_bytes = [CHR 0x0A],
           type_tag = ''SQLCHAR'', source_column_name = ''ok''\<rparr>])"
  using
    destination_ordinals [of example_env example_args example_world 0 "TempFile 0" "TempFile 1" True
      "snd (prepared example_env example_args example_world)"]
    destination_ordinals [of example_env "example_args\<lparr>if_exists := ''fail''\<rparr>" example_world 0
      "TempFile 0" "TempFile 1" True
      "snd (prepared example_env (example_args\<lparr>if_exists := ''fail''\<rparr>) example_world)"]
    destination_ordinals [of example_env "example_args\<lparr>table_name := ''u''\<rparr>" example_world 0
      "TempFile 0" "TempFile 1" False
      "snd (prepared example_env (example_args\<lparr>table_name := ''u''\<rparr>) example_world)"]
  by (simp only: example_prepared example_prepared_fail example_prepared_new simp_thms)

section \<open>The schema check under append\<close>

text \<open>
  C3. Under append, when the catalog has reported (line 295) that the table exists and the
  query of its columns succeeds: if every column name of the local \<open>df\<close> is among the
  names of the catalog's rows, the check of lines 314 to 322 passes, \<^verbatim>\<open>to_sql\<close> goes on
  to the format file and raises no \<^verbatim>\<open>BCPandasValueError\<close> at all; otherwise \<^verbatim>\<open>to_sql\<close>
  raises the \<^verbatim>\<open>BCPandasValueError\<close> of line 318, whose list is exactly the column names
  of \<open>df\<close>, in order, that no row of the catalog has.
\<close>

theorem append_schema_check:
  fixes rows :: "(string \<times> int) list"
  defines "missing f \<equiv> filter (\<lambda>n. n \<notin> fst ` set rows) (map (\<lambda>c. str (name c)) (columns f))"
  assumes "\<not> is_empty (deref w (df a))"
    and "looked_up env a w = (Inr (df1, delim, csv_file_path, fmt_file_path, ex), w2)"
    and "if_exists a = ''append''"
    and "map_of (db w) (schema a, table_name a) = Some rows"
    and "\<not> columns_query_fails env"
  shows "(missing (deref w2 df1) = [] \<longrightarrow>
           (\<exists>w3. reconciled env a w =
              (Inr (df1, delim, csv_file_path, fmt_file_path, True, Some (py_dict rows)), w3)) \<and>
           (\<forall>m. fst (to_sql env a w) \<noteq> Inl (BCPandasValueError m))) \<and>
         (missing (deref w2 df1) \<noteq> [] \<longrightarrow>
           fst (to_sql env a w) = Inl (BCPandasValueError (ExtraColumns (missing (deref w2 df1)))))"
proof -
  have db2: "db w2 = db w" and ex: "ex" using looked_up_db [OF assms(3)] assms(5) by simp_all
  have m: "extra_cols f (py_dict rows) = missing f" for f
    by (simp add: extra_cols_def missing_def py_dict_keys)
  define w3 where "w3 = log (ColumnsQueried (schema a) (table_name a)) w2"
  have d3: "deref w3 df1 = deref w2 df1" by (simp add: w3_def deref_def log_def)
  have rd: "read_columns env (schema a) (table_name a) w2 = (Inr (py_dict rows), w3)"
    using assms(5,6) db2 by (simp add: read_columns_def w3_def)
  have rc: "reconcile env a df1 ex w2 =
      (if missing (deref w2 df1) \<noteq> []
       then (Inl (BCPandasValueError (ExtraColumns (missing (deref w2 df1)))), w3)
       else (Inr (Some (py_dict rows)), w3))"
    using assms(4) ex d3 rd by (simp add: reconcile_def bind_def m)
  show ?thesis
  proof (cases "missing (deref w2 df1) = []")
    case True
    then have r: "reconciled env a w =
        (Inr (df1, delim, csv_file_path, fmt_file_path, True, Some (py_dict rows)), w3)"
      using rc ex assms(3) by (simp add: reconciled_def bind_def lift_def)
    have "fst (to_sql env a w) \<noteq> Inl (BCPandasValueError m)" for m
    proof
      assume "fst (to_sql env a w) = Inl (BCPandasValueError m)"
      then have "to_sql env a w = (Inl (BCPandasValueError m), snd (to_sql env a w))"
        by (simp add: prod_eq_iff)
      then show False
        using raisesD [OF append_raises_no_value_error [OF assms(4)]]
        unfolding to_sql_after_reconciled [OF assms(2) r] by blast
    qed
    then show ?thesis using True r by blast
  next
    case False
    then have "reconciled env a w =
        (Inl (BCPandasValueError (ExtraColumns (missing (deref w2 df1)))), w3)"
      using rc assms(3) by (simp add: reconciled_def bind_def)
    then show ?thesis
      using False assms(2) by (simp add: to_sql_def prepared_def bind_def)
  qed
qed

lemma example_looked_up:
  "fst (looked_up example_env example_args example_world) =
     Inr (0, CHR '','', TempFile 0, TempFile 1, True)"
  "map (\<lambda>c. str (name c))
     (columns (deref (snd (looked_up example_env example_args example_world)) 0)) = [''id'', ''ok'']"
  "fst (to_sql example_env example_args example_world) = Inr ()"
  "\<not> is_empty (deref example_world (df example_args))"
  "map_of (db example_world) (schema example_args, table_name example_args) =
     Some [(''ok'', 1), (''extra'', 2), (''id'', 3)]"
  "if_exists example_args = ''append''"
  "\<not> columns_query_fails example_env"
  by (simp_all add: model_defs example_defs upt_rec)

lemma example_looked_up_index:
  "fst (looked_up example_env (example_args\<lparr>index := True\<rparr>) example_world) =
     Inr (4, CHR '','', TempFile 0, TempFile 1, True)"
  "map (\<lambda>c. str (name c))
     (columns (deref (snd (looked_up example_env (example_args\<lparr>index := True\<rparr>) example_world)) 4)) =
     [''index'', ''id'', ''ok'']"
  "fst (to_sql example_env (example_args\<lparr>index := True\<rparr>) example_world) =
     Inl (BCPandasValueError (ExtraColumns [''index'']))"
  by (simp_all add: model_defs example_defs upt_rec)

theorem append_schema_check_witness:
  "\<not> is_empty (deref example_world (df example_args))
   \<and> fst (looked_up example_env example_args example_world) =
       Inr (0, CHR '','', TempFile 0, TempFile 1, True)
   \<and> if_exists example_args = ''append''
   \<and> map_of (db example_world) (schema example_args, table_name example_args) =
       Some [(''ok'', 1), (''extra'', 2), (''id'', 3)]
   \<and> \<not> columns_query_fails example_env
   \<and> map (\<lambda>c. str (name c))
       (columns (deref (snd (looked_up example_env example_args example_world)) 0)) = [''id'', ''ok'']
   \<and> fst (to_sql example_env example_args example_world) = Inr ()
   \<and> fst (looked_up example_env (example_args\<lparr>index := True\<rparr>) example_world) =
       Inr (4, CHR '','', TempFile 0, TempFile 1, True)
   \<and> map (\<lambda>c. str (name c))
       (columns (deref (snd (looked_up example_env (example_args\<lparr>index := True\<rparr>) example_world)) 4)) =
       [''index'', ''id'', ''ok'']
   \<and> fst (to_sql example_env (example_args\<lparr>index := True\<rparr>) example_world) =
       Inl (BCPandasValueError (ExtraColumns [''index'']))"
  using
    append_schema_check [of example_world example_args example_env 0 "CHR '',''" "TempFile 0"
      "TempFile 1" True "snd (looked_up example_env example_args example_world)"
      "[(''ok'', 1), (''extra'', 2), (''id'', 3)]"]
    append_schema_check [of example_world "example_args\<lparr>index := True\<rparr>" example_env 4
      "CHR '',''" "TempFile 0" "TempFile 1" True
      "snd (looked_up example_env (example_args\<lparr>index := True\<rparr>) example_world)"
      "[(''ok'', 1), (''extra'', 2), (''id'', 3)]"]
  by (simp add: example_looked_up example_looked_up_index)

section \<open>The fail policy\<close>

text \<open>
  C5. Under fail, when nothing was raised before the \<^verbatim>\<open>try\<close> of line 329: if the
  catalog reported that the table exists (the local \<open>sql_item_exists\<close>), \<^verbatim>\<open>to_sql\<close>
  raises the \<^verbatim>\<open>BCPandasValueError\<close> of line 332, the catalog is as it was and no table
  is dropped or created (nor is the bulk copy invoked); if it reported that the table does
  not exist, whenever the bulk copy is invoked the creation of the table precedes it, and
  unless the creation fails the table is created and the bulk copy is invoked next.
\<close>

theorem fail_policy:
  assumes "\<not> is_empty (deref w (df a))"
    and "prepared env a w = (Inr (df1, csv_file_path, fmt_file_path, ex), w4)"
    and "if_exists a = ''fail''"
  shows "(ex \<longrightarrow>
           fst (to_sql env a w) =
             Inl (BCPandasValueError (AlreadyExists (sql_type a) (schema a) (table_name a))) \<and>
           db (snd (to_sql env a w)) = db w \<and>
           (\<forall>ev\<in>set (emitted env a w).
              (\<forall>s t. ev \<noteq> TableDropped s t) \<and> (\<forall>s t cs. ev \<noteq> TableCreated s t cs) \<and>
              (\<forall>b. ev \<noteq> BcpInvoked b))) \<and>
         (\<not> ex \<longrightarrow>
           (\<forall>b. BcpInvoked b \<in> set (emitted env a w) \<longrightarrow>
              (\<exists>pre post cs.
                 emitted env a w = pre @ TableCreated (schema a) (table_name a) cs # post \<and>
                 BcpInvoked b \<in> set post \<and> (\<forall>b'. BcpInvoked b' \<notin> set pre))) \<and>
           (\<not> create_fails env \<longrightarrow>
              (\<exists>pre cs b post.
                 emitted env a w =
                   pre @ TableCreated (schema a) (table_name a) cs # BcpInvoked b # post)))"
proof -
  note ps = prepared_summary [OF assms(2)]
  obtain evs where evs: "trace w4 = trace w @ evs" "list_all prepares evs" using ps(6) by blast
  have run: "to_sql env a w =
      try_finally (load env a df1 ex csv_file_path fmt_file_path)
        (cleanup a csv_file_path fmt_file_path) w4"
    using assms(1,2) by (rule to_sql_after_prepared)
  show ?thesis
  proof (cases ex)
    case True
    have l: "load env a df1 ex csv_file_path fmt_file_path w4 =
        (Inl (BCPandasValueError (AlreadyExists (sql_type a) (schema a) (table_name a))), w4)"
      using True assms(3) by (simp add: load_def apply_policy_def bind_def lift_def)
    obtain w5 where c: "cleanup a csv_file_path fmt_file_path w4 = (Inr (), w5)"
      and d5: "db w5 = db w4"
      and t5: "trace w5 = trace w4 @ (if debug a then [] else [FileRemoved csv_file_path, FileRemoved fmt_file_path])"
      using cleanup_ok [OF ps(3,4,5), of a] by blast
    have res: "to_sql env a w =
        (Inl (BCPandasValueError (AlreadyExists (sql_type a) (schema a) (table_name a))), w5)"
      using run l c by (simp add: try_finally_def)
    have em: "emitted env a w =
        evs @ (if debug a then [] else [FileRemoved csv_file_path, FileRemoved fmt_file_path])"
      using res t5 evs(1) by (intro emitted_eq) simp
    have "(\<forall>s t. ev \<noteq> TableDropped s t) \<and> (\<forall>s t cs. ev \<noteq> TableCreated s t cs) \<and>
        (\<forall>b. ev \<noteq> BcpInvoked b)" if "ev \<in> set (emitted env a w)" for ev
      using that prepares_no_ddl [OF evs(2), of ev] unfolding em by (auto split: if_splits)
    then show ?thesis using True res d5 ps(1) by simp
  next
    case False
    then have none: "map_of (db w4) (schema a, table_name a) = None" using ps(1,2) by simp
    let ?call = "\<lparr>bcp_sql_item = table_name a, bcp_direction = IN env,
        bcp_flat_file = csv_file_path, bcp_format_file_path = fmt_file_path,
        bcp_sql_type = sql_type a, bcp_schema = schema a, bcp_batch_size = batch_size a,
        bcp_bcp_path = bcp_path a,
        bcp_error_file_path = py_format (error_path a) @ ''/'' @ table_name a @ ''_bcp_error.txt''\<rparr>"
    let ?created = "TableCreated (schema a) (table_name a)
        (map (\<lambda>c. str (name c)) (columns (deref w4 df1)))"
    obtain r5 w5 where l: "load env a df1 ex csv_file_path fmt_file_path w4 = (r5, w5)"
      by (cases "load env a df1 ex csv_file_path fmt_file_path w4")
    have t5: "trace w5 = trace w4 @ (if create_fails env then [] else [?created, BcpInvoked ?call])"
      using l False assms(3) none
      by (auto simp: load_def apply_policy_def bind_def priv_create_table_def
          SQLTable_create_def execute_create_def bcp_def log_def)
    obtain w6 r6 rem where c: "cleanup a csv_file_path fmt_file_path w5 = (r6, w6)"
      and t6: "trace w6 = trace w5 @ rem"
      and rem: "set rem \<subseteq> {FileRemoved csv_file_path, FileRemoved fmt_file_path}"
      using cleanup_trace [of a csv_file_path fmt_file_path w5] by blast
    have "snd (to_sql env a w) = w6"
      using run l c by (simp add: try_finally_def split: sum.splits)
    then have em: "emitted env a w =
        evs @ (if create_fails env then [] else [?created, BcpInvoked ?call]) @ rem"
      using t6 t5 evs(1) by (intro emitted_eq) simp
    have no_pre: "BcpInvoked b' \<notin> set evs" for b'
      using prepares_no_ddl [OF evs(2), of "BcpInvoked b'"] by blast
    have no_rem: "BcpInvoked b' \<notin> set rem" for b' using rem by auto
    have "\<exists>pre post cs.
        emitted env a w = pre @ TableCreated (schema a) (table_name a) cs # post \<and>
        BcpInvoked b \<in> set post \<and> (\<forall>b'. BcpInvoked b' \<notin> set pre)"
      if b: "BcpInvoked b \<in> set (emitted env a w)" for b
    proof -
      have nf: "\<not> create_fails env" and "b = ?call"
        using b no_pre no_rem unfolding em by (auto split: if_splits)
      then have "emitted env a w = evs @ ?created # (BcpInvoked b # rem)"
        using em by simp
      then show ?thesis using no_pre by (intro exI [of _ evs] exI [of _ "BcpInvoked b # rem"] exI conjI) auto
    qed
    moreover have "\<exists>pre cs b post.
        emitted env a w = pre @ TableCreated (schema a) (table_name a) cs # BcpInvoked b # post"
      if "\<not> create_fails env"
      using that em
      by (intro exI [of _ evs] exI [of _ "map (\<lambda>c. str (name c)) (columns (deref w4 df1))"]
          exI [of _ ?call] exI [of _ rem]) simp
    ultimately show ?thesis using False by blast
  qed
qed

lemma example_fail_exists:
  "\<not> is_empty (deref example_world (df (example_args\<lparr>if_exists := ''fail''\<rparr>)))"
  "fst (prepared example_env (example_args\<lparr>if_exists := ''fail''\<rparr>) example_world) =
     Inr (0, TempFile 0, TempFile 1, True)"
  "fst (to_sql example_env (example_args\<lparr>if_exists := ''fail''\<rparr>) example_world) =
     Inl (BCPandasValueError (AlreadyExists ''table'' ''dbo'' ''t''))"
  "db (snd (to_sql example_env (example_args\<lparr>if_exists := ''fail''\<rparr>) example_world)) =
     db example_world"
  "drop 3 (emitted example_env (example_args\<lparr>if_exists := ''fail''\<rparr>) example_world) =
     [FileRemoved (TempFile 0), FileRemoved (TempFile 1)]"
  by (simp_all add: model_defs example_defs upt_rec)

lemma example_fail_new:
  "\<not> is_empty (deref example_world (df (example_args\<lparr>if_exists := ''fail'', table_name := ''u''\<rparr>)))"
  "fst (prepared example_env (example_args\<lparr>if_exists := ''fail'', table_name := ''u''\<rparr>) example_world) =
     Inr (0, TempFile 0, TempFile 1, False)"
  "drop 3 (emitted example_env (example_args\<lparr>if_exists := ''fail'', table_name := ''u''\<rparr>) example_world) =
     [TableCreated ''dbo'' ''u'' [''id'', ''ok''],
      BcpInvoked \<lparr>bcp_sql_item = ''u'', bcp_direction = ''in'', bcp_flat_file = TempFile 0,
        bcp_format_file_path = TempFile 1, bcp_sql_type = ''table'', bcp_schema = ''dbo'',
        bcp_batch_size = None, bcp_bcp_path = None,
        bcp_error_file_path = ''None/u_bcp_error.txt''\<rparr>,
      FileRemoved (TempFile 0), FileRemoved (TempFile 1)]"
  by (simp_all add: model_defs example_defs upt_rec)

theorem fail_policy_witness:
  "\<not> is_empty (deref example_world (df (example_args\<lparr>if_exists := ''fail''\<rparr>)))
   \<and> fst (prepared example_env (example_args\<lparr>if_exists := ''fail''\<rparr>) example_world) =
       Inr (0, TempFile 0, TempFile 1, True)
   \<and> if_exists (example_args\<lparr>if_exists := ''fail''\<rparr>) = ''fail''
   \<and> fst (to_sql example_env (example_args\<lparr>if_exists := ''fail''\<rparr>) example_world) =
       Inl (BCPandasValueError (AlreadyExists ''table'' ''dbo'' ''t''))
   \<and> db (snd (to_sql example_env (example_args\<lparr>if_exists := ''fail''\<rparr>) example_world)) =
       db example_world
   \<and> drop 3 (emitted example_env (example_args\<lparr>if_exists := ''fail''\<rparr>) example_world) =
       [FileRemoved (TempFile 0), FileRemoved (TempFile 1)]
   \<and> fst (prepared example_env (example_args\<lparr>if_exists := ''fail'', table_name := ''u''\<rparr>) example_world) =
       Inr (0, TempFile 0, TempFile 1, False)
   \<and> drop 3 (emitted example_env (example_args\<lparr>if_exists := ''fail'', table_name := ''u''\<rparr>) example_world) =
       [TableCreated ''dbo'' ''u'' [''id'', ''ok''],
        BcpInvoked \<lparr>bcp_sql_item = ''u'', bcp_direction = ''in'', bcp_flat_file = TempFile 0,
          bcp_format_file_path = TempFile 1, bcp_sql_type = ''table'', bcp_schema = ''dbo'',
          bcp_batch_size = None, bcp_bcp_path = None,
          bcp_error_file_path = ''None/u_bcp_error.txt''\<rparr>,
        FileRemoved (TempFile 0), FileRemoved (TempFile 1)]"
  using
    fail_policy [of example_world "example_args\<lparr>if_exists := ''fail''\<rparr>" example_env 0
      "TempFile 0" "TempFile 1" True
      "snd (prepared example_env (example_args\<lparr>if_exists := ''fail''\<rparr>) example_world)"]
    fail_policy [of example_world "example_args\<lparr>if_exists := ''fail'', table_name := ''u''\<rparr>"
      example_env 0 "TempFile 0" "TempFile 1" False
      "snd (prepared example_env (example_args\<lparr>if_exists := ''fail'', table_name := ''u''\<rparr>) example_world)"]
  by (simp add: example_fail_exists example_fail_new example_looked_up)

section \<open>The error file of the bulk copy\<close>

text \<open>
  C10. Whenever \<^verbatim>\<open>bcp\<close> is invoked, its \<^verbatim>\<open>error_file_path\<close> is the f-string of line
  364: \<open>error_path\<close> as Python formats it, a slash, the table name and
  \<^verbatim>\<open>_bcp_error.txt\<close>; when \<open>error_path\<close> is \<^verbatim>\<open>None\<close> the path begins with \<^verbatim>\<open>None/\<close>.
\<close>

theorem bcp_error_file_path_interpolated:
  assumes "BcpInvoked b \<in> set (emitted env a w)"
  shows "bcp_error_file_path b =
      (case error_path a of None \<Rightarrow> ''None'' | Some p \<Rightarrow> p) @ ''/'' @ table_name a @ ''_bcp_error.txt''
    \<and> (error_path a = None \<longrightarrow> take 5 (bcp_error_file_path b) = ''None/'')"
proof -
  define P where "P = (\<lambda>ev. \<forall>c. ev = BcpInvoked c \<longrightarrow>
      bcp_error_file_path c = py_format (error_path a) @ ''/'' @ table_name a @ ''_bcp_error.txt'')"
  have "grows P w (snd (to_sql env a w))"
    by (rule grows_to_sql) (simp_all add: P_def)
  then have "list_all P (emitted env a w)" by (rule grows_emitted)
  then have "P (BcpInvoked b)" using assms by (simp add: list_all_iff)
  then have "bcp_error_file_path b =
      py_format (error_path a) @ ''/'' @ table_name a @ ''_bcp_error.txt''"
    by (simp add: P_def)
  then show ?thesis by (auto simp: py_format_def)
qed

lemma example_bcp:
  "drop 4 (emitted example_env (example_args\<lparr>table_name := ''u''\<rparr>) example_world) =
     [TableCreated ''dbo'' ''u'' [''id'', ''ok''],
      BcpInvoked \<lparr>bcp_sql_item = ''u'', bcp_direction = ''in'', bcp_flat_file = TempFile 0,
        bcp_format_file_path = TempFile 1, bcp_sql_type = ''table'', bcp_schema = ''dbo'',
        bcp_batch_size = None, bcp_bcp_path = None,
        bcp_error_file_path = ''None/u_bcp_error.txt''\<rparr>,
      FileRemoved (TempFile 0), FileRemoved (TempFile 1)]"
  "drop 4 (emitted example_env (example_args\<lparr>table_name := ''u'', error_path := Some ''/tmp''\<rparr>)
       example_world) =
     [TableCreated ''dbo'' ''u'' [''id'', ''ok''],
      BcpInvoked \<lparr>bcp_sql_item = ''u'', bcp_direction = ''in'', bcp_flat_file = TempFile 0,
        bcp_format_file_path = TempFile 1, bcp_sql_type = ''table'', bcp_schema = ''dbo'',
        bcp_batch_size = None, bcp_bcp_path = None,
        bcp_error_file_path = ''/tmp/u_bcp_error.txt''\<rparr>,
      FileRemoved (TempFile 0), FileRemoved (TempFile 1)]"
  by (simp_all add: model_defs example_defs upt_rec)

lemma in_set_drop: "x \<in> set (drop n xs) \<Longrightarrow> x \<in> set xs"
  by (rule in_set_dropD)

theorem bcp_error_file_path_interpolated_witness:
  "BcpInvoked \<lparr>bcp_sql_item = ''u'', bcp_direction = ''in'', bcp_flat_file = TempFile 0,
      bcp_format_file_path = TempFile 1, bcp_sql_type = ''table'', bcp_schema = ''dbo'',
      bcp_batch_size = None, bcp_bcp_path = None,
      bcp_error_file_path = ''None/u_bcp_error.txt''\<rparr>
     \<in> set (emitted example_env (example_args\<lparr>table_name := ''u''\<rparr>) example_world)
   \<and> error_path (example_args\<lparr>table_name := ''u''\<rparr>) = None
   \<and> BcpInvoked \<lparr>bcp_sql_item = ''u'', bcp_direction = ''in'', bcp_flat_file = TempFile 0,
      bcp_format_file_path = TempFile 1, bcp_sql_type = ''table'', bcp_schema = ''dbo'',
      bcp_batch_size = None, bcp_bcp_path = None,
      bcp_error_file_path = ''/tmp/u_bcp_error.txt''\<rparr>
     \<in> set (emitted example_env (example_args\<lparr>table_name := ''u'', error_path := Some ''/tmp''\<rparr>)
         example_world)"
proof -
  let ?b = "\<lparr>bcp_sql_item = ''u'', bcp_direction = ''in'', bcp_flat_file = TempFile 0,
      bcp_format_file_path = TempFile 1, bcp_sql_type = ''table'', bcp_schema = ''dbo'',
      bcp_batch_size = None, bcp_bcp_path = None,
      bcp_error_file_path = ''None/u_bcp_error.txt''\<rparr>"
  let ?c = "\<lparr>bcp_sql_item = ''u'', bcp_direction = ''in'', bcp_flat_file = TempFile 0,
      bcp_format_file_path = TempFile 1, bcp_sql_type = ''table'', bcp_schema = ''dbo'',
      bcp_batch_size = None, bcp_bcp_path = None,
      bcp_error_file_path = ''/tmp/u_bcp_error.txt''\<rparr>"
  have 1: "BcpInvoked ?b \<in> set (emitted example_env (example_args\<lparr>table_name := ''u''\<rparr>) example_world)"
    by (rule in_set_drop [of _ 4]) (simp add: example_bcp(1))
  have 2: "BcpInvoked ?c \<in> set (emitted example_env
      (example_args\<lparr>table_name := ''u'', error_path := Some ''/tmp''\<rparr>) example_world)"
    by (rule in_set_drop [of _ 4]) (simp add: example_bcp(2))
  show ?thesis
    using 1 2 bcp_error_file_path_interpolated [OF 1] bcp_error_file_path_interpolated [OF 2]
    by (simp add: example_args_def)
qed

section \<open>The index\<close>




section \<open>The cleanup\<close>

text \<open>
  C1 says that, with \<open>debug\<close> off, both scratch files are deleted on every exit path,
  also when an exception is raised. The \<^verbatim>\<open>try\<close> of line 329 begins after both files were
  written, so the \<^verbatim>\<open>finally\<close> of line 366 runs only for what lines 330 to 365 raise (as
  in the example of the fail policy above, where both files are removed). On the example,
  with \<open>debug\<close> off and an empty scratch directory before the call: the schema error of
  line 318 (the index column is not in the table) leaves the flat file, and nothing is
  removed; a failure of the catalog query of line 293 leaves the flat file; a failure of
  the write of line 326 leaves both files.
\<close>

theorem scratch_files_left_behind:
  "\<not> debug (example_args\<lparr>index := True\<rparr>) \<and> files example_world = []
   \<and> fst (to_sql example_env (example_args\<lparr>index := True\<rparr>) example_world) =
       Inl (BCPandasValueError (ExtraColumns [''index'']))
   \<and> map fst (files (snd (to_sql example_env (example_args\<lparr>index := True\<rparr>) example_world))) =
       [TempFile 0]
   \<and> written (emitted example_env (example_args\<lparr>index := True\<rparr>) example_world) = [TempFile 0]
   \<and> removed (emitted example_env (example_args\<lparr>index := True\<rparr>) example_world) = []
   \<and> fst (to_sql (example_env\<lparr>exists_query_fails := True\<rparr>) example_args example_world) =
       Inl DatabaseError
   \<and> map fst (files (snd (to_sql (example_env\<lparr>exists_query_fails := True\<rparr>) example_args
         example_world))) = [TempFile 0]
   \<and> removed (emitted (example_env\<lparr>exists_query_fails := True\<rparr>) example_args example_world) = []
   \<and> fst (to_sql (example_env\<lparr>format_file_io := WriteFails\<rparr>) example_args example_world) =
       Inl (OSError (TempFile 1))
   \<and> map fst (files (snd (to_sql (example_env\<lparr>format_file_io := WriteFails\<rparr>) example_args
         example_world))) = [TempFile 0, TempFile 1]
   \<and> removed (emitted (example_env\<lparr>format_file_io := WriteFails\<rparr>) example_args example_world) = []"
  by (simp add: model_defs example_defs upt_rec)

end
